theory Spec2Isabelle
  imports Complex_Main "HOL-Library.Multiset" "HOL-Library.AList"
begin

section \<open>JavaScript values\<close>

text \<open>
  The synthesis engine (\<^verbatim>\<open>src/analysis/synthesizer.js\<close>) and the differential engine are
  plain JavaScript over JSON objects. An optional property is an \<^typ>\<open>'a option\<close>,
  \<open>None\<close> standing for \<^verbatim>\<open>undefined\<close> and \<^verbatim>\<open>null\<close>.
\<close>

subsection \<open>Numbers\<close>

text \<open>
  A JavaScript number is an IEEE 754 double. A finite double is modelled by the
  \<^typ>\<open>real\<close> it denotes, and an arithmetic operation of the source by the exact operation
  followed by \<open>fl\<close>, the rounding to the nearest double with ties to the even
  significand: 53 bits, and the fixed spacing \<open>2^(-1074)\<close> of the subnormal range.
  The exponent is not bounded above: a result beyond the largest double, which the
  source would turn into an infinity, is outside the model, and so is \<^verbatim>\<open>NaN\<close>.

  \<open>bits n\<close> is the length of the binary numeral of \<open>n\<close>, and \<open>expo x\<close> the exponent
  of the power of two at or below a positive \<open>x\<close>.
\<close>

fun bits :: "nat \<Rightarrow> nat" where
  "bits n = (if n = 0 then 0 else Suc (bits (n div 2)))"

declare bits.simps [simp del]

definition pow2 :: "int \<Rightarrow> real" where
  "pow2 e = (if e \<ge> 0 then 2 ^ nat e else 1 / 2 ^ nat (- e))"

definition expo :: "real \<Rightarrow> int" where
  "expo x = (if x \<ge> 1 then int (bits (nat \<lfloor>x\<rfloor>)) - 1
             else - int (bits (nat (\<lceil>1 / x\<rceil> - 1))))"

definition round_even :: "real \<Rightarrow> int" where
  "round_even m =
     (let f = \<lfloor>m\<rfloor>; r = m - real_of_int f
      in if r < 1 / 2 then f else if r > 1 / 2 then f + 1
         else if even f then f else f + 1)"

definition fl :: "real \<Rightarrow> real" where
  "fl x =
     (if x = 0 then 0
      else (let a = \<bar>x\<bar>;
                e = max (expo a - 52) (- 1074);
                n = round_even (a / pow2 e)
            in sgn x * real_of_int n * pow2 e))"

text \<open>The four operations on doubles.\<close>

definition fadd :: "real \<Rightarrow> real \<Rightarrow> real" where
  "fadd x y = fl (x + y)"

definition fsub :: "real \<Rightarrow> real \<Rightarrow> real" where
  "fsub x y = fl (x - y)"

definition fmul :: "real \<Rightarrow> real \<Rightarrow> real" where
  "fmul x y = fl (x * y)"

definition fdiv :: "real \<Rightarrow> real \<Rightarrow> real" where
  "fdiv x y = fl (x / y)"

text \<open>
  A decimal literal of the source, such as \<^verbatim>\<open>0.4\<close>, is the double \<open>fl 0.4\<close>. So is a
  number of an input object: the record of the object holds the real that its decimal
  text denotes, and \<open>num\<close> reads the property as the double nearest to it.

  Counts (upvotes, comments, frequencies, lengths, milliseconds) are \<^typ>\<open>int\<close>: they
  are integers below \<open>2^53\<close>, on which the arithmetic of doubles is exact.
\<close>

definition num :: "real option \<Rightarrow> real option" where
  "num x = (case x of None \<Rightarrow> None | Some v \<Rightarrow> Some (fl v))"

subsection \<open>Falsy values, rounding, strings\<close>

text \<open>
  The operator \<^verbatim>\<open>x || d\<close> yields \<open>d\<close> when \<open>x\<close> is falsy: missing, the number \<open>0\<close>,
  or the empty string.
\<close>

definition or_num :: "real option \<Rightarrow> real \<Rightarrow> real" where
  "or_num x d = (case x of None \<Rightarrow> d | Some v \<Rightarrow> if v = 0 then d else v)"

definition or_int :: "int option \<Rightarrow> int \<Rightarrow> int" where
  "or_int x d = (case x of None \<Rightarrow> d | Some v \<Rightarrow> if v = 0 then d else v)"

definition or_str :: "string option \<Rightarrow> string \<Rightarrow> string" where
  "or_str x d = (case x of None \<Rightarrow> d | Some v \<Rightarrow> if v = [] then d else v)"

text \<open>
  \<^verbatim>\<open>Math.round\<close>: the nearest integer, a half rounding towards plus infinity. The
  result is exact: no sum is formed in doubles.
\<close>

definition js_round :: "real \<Rightarrow> int" where
  "js_round x = floor (x + 1 / 2)"

text \<open>Decimal rendering of an integer inside a template string.\<close>

fun show_nat :: "nat \<Rightarrow> string" where
  "show_nat n =
     (if n < 10 then [''0123456789'' ! n]
      else show_nat (n div 10) @ [''0123456789'' ! (n mod 10)])"

declare show_nat.simps [simp del]

definition show_int :: "int \<Rightarrow> string" where
  "show_int i = (if i < 0 then CHR ''-'' # show_nat (nat (- i)) else show_nat (nat i))"

text \<open>The double quote character of a template string.\<close>

definition dquote :: string where
  "dquote = [CHR 0x22]"

text \<open>\<^verbatim>\<open>parts.join(sep)\<close>.\<close>

fun join_with :: "string \<Rightarrow> string list \<Rightarrow> string" where
  "join_with sep [] = []"
| "join_with sep [x] = x"
| "join_with sep (x # y # ys) = x @ sep @ join_with sep (y # ys)"

section \<open>Classified feedback items\<close>

text \<open>
  The properties of an item that the synthesizer reads. \<open>createdAt\<close> is the creation
  time in milliseconds since the epoch (the source parses an ISO string with
  \<^verbatim>\<open>new Date\<close>); \<open>itype\<close> is the property \<^verbatim>\<open>type\<close>.
\<close>

record problem_metadata =
  featureArea :: "string option"
  impactScore :: "real option"
  userSegmentGuess :: "string option"

record delight_metadata =
  ahaMonent :: "string option"
  shareability :: "real option"

record item_summary =
  keyQuote :: "string option"

record item =
  sourceId :: "string option"
  title :: "string option"
  body :: "string option"
  content :: "string option"
  upvotes :: "int option"
  score :: "int option"
  numComments :: "int option"
  duplicateCount :: "int option"
  createdAt :: "int option"
  itype :: string
  category :: string
  problemMetadata :: "problem_metadata option"
  delightMetadata :: "delight_metadata option"
  summary :: "item_summary option"

text \<open>Optional chaining \<^verbatim>\<open>m?.field\<close>.\<close>

definition chain :: "'a option \<Rightarrow> ('a \<Rightarrow> 'b option) \<Rightarrow> 'b option" where
  "chain m f = (case m of None \<Rightarrow> None | Some v \<Rightarrow> f v)"

section \<open>Impact score\<close>

record stakes_line =
  stakes_type :: string
  message :: string

record sub_score =
  bvalue :: real
  weight :: real

record score_breakdown =
  reach :: sub_score
  sentiment :: sub_score
  velocity :: sub_score

record impact_data =
  iscore :: real
  maxScore :: real
  breakdown :: score_breakdown
  rationale :: string
  stakes :: stakes_line

text \<open>\<^verbatim>\<open>generateScoreRationale(reach, sentiment, velocity, item)\<close>\<close>

definition generateScoreRationale :: "real \<Rightarrow> real \<Rightarrow> real \<Rightarrow> item \<Rightarrow> string" where
  "generateScoreRationale reach' sentiment' velocity' item =
     (let parts1 =
            (if reach' \<ge> 7
             then [''high visibility ('' @ show_int (or_int (upvotes item) 0) @ '' upvotes)'']
             else if reach' \<ge> 4 then [''moderate reach''] else []);
          parts2 = (if sentiment' \<ge> 8 then parts1 @ [''strong sentiment intensity''] else parts1);
          parts3 = (if velocity' \<ge> 6 then parts2 @ [''rapid engagement growth''] else parts2);
          duplicates = or_int (duplicateCount item) 0;
          parts = (if duplicates > 5 then parts3 @ [show_int duplicates @ ''+ similar reports'']
                   else parts3)
      in if length parts > 0 then ''Score reflects '' @ join_with '', '' parts @ ''.''
         else ''Score based on standard engagement metrics.'')"

text \<open>\<^verbatim>\<open>generateStakes(item, score)\<close>\<close>

definition generateStakes :: "item \<Rightarrow> real \<Rightarrow> stakes_line" where
  "generateStakes item score' =
     (if itype item = ''Constructive'' then
        (if score' \<ge> 7 then
           \<lparr>stakes_type = ''risk'',
            message = ''Risk if ignored: Potential churn of ''
              @ or_str (chain (problemMetadata item) userSegmentGuess) ''affected users''
              @ '', negative word-of-mouth amplification.''\<rparr>
         else
           \<lparr>stakes_type = ''risk'',
            message = ''Risk if ignored: Continued user frustration, possible support ticket increase.''\<rparr>)
      else if itype item = ''Praise'' then
        \<lparr>stakes_type = ''upside'',
         message = ''Upside if amplified: Social proof for marketing, potential case study opportunity.''\<rparr>
      else
        \<lparr>stakes_type = ''neutral'',
         message = ''Monitor for changes in sentiment or frequency.''\<rparr>)"

text \<open>
  \<^verbatim>\<open>calculateImpactScore(item, totalItems)\<close>. The source reads the clock
  (\<^verbatim>\<open>Date.now()\<close>); the model takes the current time \<open>now\<close>, in milliseconds, as
  its first argument. An item without \<^verbatim>\<open>createdAt\<close> is taken to be created now.
\<close>

definition calculateImpactScore :: "int \<Rightarrow> item \<Rightarrow> nat \<Rightarrow> impact_data" where
  "calculateImpactScore now item totalItems =
     (let upvotes' = or_int (upvotes item) (or_int (score item) 0);
          comments = or_int (numComments item) 0;
          reach' = min 10 (fdiv (real_of_int (upvotes' + comments * 2)) 20);
          sentiment' =
            (if itype item = ''Constructive''
             then or_num (num (chain (problemMetadata item) impactScore)) 7
             else if itype item = ''Praise''
             then or_num (num (chain (delightMetadata item) shareability)) 7
             else 5);
          createdAt' = (case createdAt item of None \<Rightarrow> now | Some t \<Rightarrow> t);
          ageInHours = max 1 (fdiv (real_of_int (now - createdAt')) (1000 * 60 * 60));
          engagementPerHour = fdiv (real_of_int (upvotes' + comments)) ageInHours;
          velocity' = min 10 (fmul engagementPerHour 2);
          score' = fadd (fadd (fmul reach' (fl 0.4)) (fmul sentiment' (fl 0.3)))
                        (fmul velocity' (fl 0.3));
          normalizedScore = fdiv (real_of_int (js_round (fmul score' 10))) 10
      in \<lparr>iscore = normalizedScore,
          maxScore = 10,
          breakdown =
            \<lparr>reach = \<lparr>bvalue = fdiv (real_of_int (js_round (fmul reach' 10))) 10,
                      weight = fl 0.4\<rparr>,
             sentiment = \<lparr>bvalue = fdiv (real_of_int (js_round (fmul sentiment' 10))) 10,
                          weight = fl 0.3\<rparr>,
             velocity = \<lparr>bvalue = fdiv (real_of_int (js_round (fmul velocity' 10))) 10,
                         weight = fl 0.3\<rparr>\<rparr>,
          rationale = generateScoreRationale reach' sentiment' velocity' item,
          stakes = generateStakes item normalizedScore\<rparr>)"

section \<open>Signal filter\<close>

text \<open>
  An element of the two output lists of \<^verbatim>\<open>filterSignalFromNoise\<close>: the spread item
  \<^verbatim>\<open>{...item, signalScore, impactData}\<close> or \<^verbatim>\<open>{...item, signalScore}\<close>. The property
  \<open>impactData\<close> is \<open>None\<close> on an object that was built without it.
\<close>

record scored_item =
  src :: item
  signalScore :: real
  impactData :: "impact_data option"

record signal_data =
  highSignal :: "scored_item list"
  noise :: "scored_item list"

text \<open>\<^verbatim>\<open>str?.length\<close>\<close>

definition str_length :: "string option \<Rightarrow> int option" where
  "str_length s = (case s of None \<Rightarrow> None | Some v \<Rightarrow> Some (int (length v)))"

text \<open>\<^verbatim>\<open>calculateSignalScore(item)\<close>: the running \<^verbatim>\<open>score\<close> is threaded through the steps.\<close>

definition calculateSignalScore :: "item \<Rightarrow> real" where
  "calculateSignalScore item =
     (let s0 = fl 0.5;
          s1 = (if itype item = ''Constructive'' then fadd s0 (fl 0.2) else s0);
          s2 = (if itype item = ''Praise'' then fadd s1 (fl 0.1) else s1);
          bodyLength = or_int (str_length (body item)) (or_int (str_length (content item)) 0);
          s3 = (if bodyLength > 200 then fadd s2 (fl 0.1) else s2);
          s4 = (if bodyLength > 500 then fadd s3 (fl 0.1) else s3);
          upvotes' = or_int (upvotes item) (or_int (score item) 0);
          s5 = (if upvotes' > 10 then fadd s4 (fl 0.05) else s4);
          s6 = (if upvotes' > 50 then fadd s5 (fl 0.1) else s5);
          s7 = (if upvotes' > 100 then fadd s6 (fl 0.1) else s6);
          s8 = (case problemMetadata item of
                  None \<Rightarrow> s7
                | Some pm \<Rightarrow>
                    (case num (impactScore pm) of
                       None \<Rightarrow> fadd s7 (fl 0.1)
                     | Some v \<Rightarrow> if v \<ge> 7 then fadd (fadd s7 (fl 0.1)) (fl 0.1)
                                else fadd s7 (fl 0.1)));
          s9 = (if category item = ''Rant/Opinion'' then fsub s8 (fl 0.2) else s8);
          s10 = (if bodyLength < 50 then fsub s9 (fl 0.2) else s9)
      in max 0 (min 1 s10))"

text \<open>
  The comparator of \<^verbatim>\<open>highSignal.sort((a, b) => b.impactData.score - a.impactData.score)\<close>
  reads the impact score of an element; every element pushed to \<open>highSignal\<close> has the
  property (lemma \<open>highSignal_has_impactData\<close>), the other branch is the reading of
  \<^verbatim>\<open>item.impactData?.score || 0\<close> used by the clusterer. The score is a value the
  program computed itself, a double already.
\<close>

definition impact_of :: "scored_item \<Rightarrow> real" where
  "impact_of x = or_num (chain (impactData x) (\<lambda>d. Some (iscore d))) 0"

text \<open>One iteration of the loop of \<^verbatim>\<open>filterSignalFromNoise\<close> over \<open>analyzedItems\<close>.\<close>

definition filter_step :: "int \<Rightarrow> nat \<Rightarrow> signal_data \<Rightarrow> item \<Rightarrow> signal_data" where
  "filter_step now totalItems acc item =
     (let signalScore' = calculateSignalScore item;
          impactData' = calculateImpactScore now item totalItems
      in if signalScore' \<ge> fl 0.5
         then acc\<lparr>highSignal := highSignal acc @
                [\<lparr>src = item, signalScore = signalScore', impactData = Some impactData'\<rparr>]\<rparr>
         else acc\<lparr>noise := noise acc @
                [\<lparr>src = item, signalScore = signalScore', impactData = None\<rparr>]\<rparr>)"

text \<open>
  \<^verbatim>\<open>Array.prototype.sort\<close> is stable; with the comparator \<^verbatim>\<open>b.k - a.k\<close> it sorts
  descending by \<open>k\<close>, which is the stable ascending sort by \<open>- k\<close>. The comparator
  subtracts doubles, and the sort reads only the sign of the result, which is the sign
  of the exact difference (lemma \<open>fsub_sign\<close>).
\<close>

definition sort_desc :: "('a \<Rightarrow> real) \<Rightarrow> 'a list \<Rightarrow> 'a list" where
  "sort_desc k xs = sort_key (\<lambda>x. - k x) xs"

definition filterSignalFromNoise :: "int \<Rightarrow> item list \<Rightarrow> signal_data" where
  "filterSignalFromNoise now analyzedItems =
     (let acc = foldl (filter_step now (length analyzedItems))
                  \<lparr>highSignal = [], noise = []\<rparr> analyzedItems
      in \<lparr>highSignal = sort_desc impact_of (highSignal acc), noise = noise acc\<rparr>)"

section \<open>Focus-area clusterer\<close>

text \<open>The four literals of the focus-area category and their strings.\<close>

datatype focus_category = feature_request | usability_friction | bug | praise

fun category_str :: "focus_category \<Rightarrow> string" where
  "category_str feature_request = ''feature_request''"
| "category_str usability_friction = ''usability_friction''"
| "category_str bug = ''bug''"
| "category_str praise = ''praise''"

text \<open>
  The accumulator object stored under a key of \<^verbatim>\<open>areas\<close> during the loop, and the
  object returned for it: the accumulator spread, with the aggregates added.
  \<open>segments\<close> is a \<^verbatim>\<open>Set\<close>, kept as the list of its elements in insertion order.
\<close>

record area_acc =
  acc_id :: string
  acc_title :: string
  acc_category :: focus_category
  acc_items :: "scored_item list"
  acc_totalScore :: real
  acc_quotes :: "string list"
  acc_segments :: "string list"

record focus_cluster =
  area_id :: string
  area_title :: string
  area_category :: focus_category
  items :: "scored_item list"
  totalScore :: real
  quotes :: "string list"
  segments :: "string list"
  frequency :: int
  avgImpact :: real
  topQuote :: string
  affectedSegments :: "string list"
  area_stakes :: stakes_line
  scoreRationale :: string

text \<open>
  Lines 293 to 303 of the loop body: the feature area, the category and the key of an
  item. The category chain tests the classification category first and the type last.
\<close>

definition featureAreaOf :: "item \<Rightarrow> string" where
  "featureAreaOf item =
     or_str (chain (problemMetadata item) featureArea)
       (or_str (chain (delightMetadata item) ahaMonent) ''General'')"

definition focusCategoryOf :: "item \<Rightarrow> focus_category" where
  "focusCategoryOf item =
     (if category item = ''Feature Request'' then feature_request
      else if category item = ''Bug'' then bug
      else if itype item = ''Praise'' then praise
      else usability_friction)"

definition area_key :: "focus_category \<Rightarrow> string \<Rightarrow> string" where
  "area_key c t = category_str c @ '':'' @ t"

definition clusterKey :: "item \<Rightarrow> string" where
  "clusterKey item = area_key (focusCategoryOf item) (featureAreaOf item)"

definition set_add :: "string \<Rightarrow> string list \<Rightarrow> string list" where
  "set_add x xs = (if x \<in> set xs then xs else xs @ [x])"

text \<open>
  One iteration of the loop of \<^verbatim>\<open>clusterIntoFocusAreas\<close>. \<^verbatim>\<open>areas\<close> is an object
  used as a dictionary; its keys all contain a colon, so none is an inherited property
  or an integer index, and \<^verbatim>\<open>Object.values\<close> lists the values in insertion order: an
  association list, a new key appended at the end.
\<close>

definition cluster_step :: "(string \<times> area_acc) list \<Rightarrow> scored_item \<Rightarrow> (string \<times> area_acc) list" where
  "cluster_step areas item =
     (let featureArea' = featureAreaOf (src item);
          category' = focusCategoryOf (src item);
          key = area_key category' featureArea';
          area0 = (case map_of areas key of
                     None \<Rightarrow> \<lparr>acc_id = key, acc_title = featureArea', acc_category = category',
                              acc_items = [], acc_totalScore = 0, acc_quotes = [],
                              acc_segments = []\<rparr>
                   | Some a \<Rightarrow> a);
          area1 = area0\<lparr>acc_items := acc_items area0 @ [item],
                        acc_totalScore := fadd (acc_totalScore area0) (impact_of item)\<rparr>;
          area2 = (case chain (summary (src item)) keyQuote of
                     None \<Rightarrow> area1
                   | Some q \<Rightarrow> if q = [] then area1
                              else area1\<lparr>acc_quotes := acc_quotes area1 @ [q]\<rparr>);
          area3 = (case chain (problemMetadata (src item)) userSegmentGuess of
                     None \<Rightarrow> area2
                   | Some g \<Rightarrow> if g = [] then area2
                              else area2\<lparr>acc_segments := set_add g (acc_segments area2)\<rparr>)
      in AList.update key area3 areas)"

text \<open>The aggregates computed for each value of \<^verbatim>\<open>areas\<close>.\<close>

definition finalize :: "area_acc \<Rightarrow> focus_cluster" where
  "finalize area =
     \<lparr>area_id = acc_id area,
      area_title = acc_title area,
      area_category = acc_category area,
      items = acc_items area,
      totalScore = acc_totalScore area,
      quotes = acc_quotes area,
      segments = acc_segments area,
      frequency = int (length (acc_items area)),
      avgImpact = (if length (acc_items area) > 0
                   then fdiv (acc_totalScore area) (real (length (acc_items area))) else 0),
      topQuote = (case acc_quotes area of [] \<Rightarrow> [] | q # _ \<Rightarrow> or_str (Some q) []),
      affectedSegments = acc_segments area,
      area_stakes =
        (case acc_items area of
           [] \<Rightarrow> \<lparr>stakes_type = ''neutral'', message = []\<rparr>
         | i # _ \<Rightarrow> (case impactData i of
                       None \<Rightarrow> \<lparr>stakes_type = ''neutral'', message = []\<rparr>
                     | Some d \<Rightarrow> stakes d)),
      scoreRationale =
        (case acc_items area of
           [] \<Rightarrow> []
         | i # _ \<Rightarrow> or_str (chain (impactData i) (\<lambda>d. Some (rationale d))) [])\<rparr>"

definition clusterIntoFocusAreas :: "scored_item list \<Rightarrow> focus_cluster list" where
  "clusterIntoFocusAreas its =
     sort_desc avgImpact (map (\<lambda>kv. finalize (snd kv)) (foldl cluster_step [] its))"

section \<open>Differential analysis engine\<close>

text \<open>
  The properties of a focus area that the differential engine and the trend functions
  read: of an area of a synthesis result, or of a stored snapshot
  (\<^verbatim>\<open>{title, category, frequency, impactScore}\<close>, without a severity label). Its
  category is one of the four literals of the focus-area schema; its frequency is a count.
\<close>

record focus_area =
  fa_title :: string
  fa_category :: focus_category
  fa_frequency :: int
  fa_impactScore :: "real option"
  fa_severityLabel :: "string option"

record sentiment_data =
  s_positive :: real
  s_neutral :: real
  s_negative :: real
  s_mood :: string

record run_metadata =
  totalAnalyzed :: "int option"

text \<open>A synthesis result or a snapshot, as far as the engine reads it.\<close>

record synthesis =
  focusAreas :: "focus_area list option"
  syn_sentiment :: "sentiment_data option"
  syn_metadata :: "run_metadata option"
  syn_createdAt :: "string option"

text \<open>
  An entry of a bucket: the spread area with the properties added to it; a property
  that the branch does not set is \<open>None\<close>.
\<close>

record issue =
  area :: focus_area
  changeType :: string
  previousFrequency :: "int option"
  frequencyDelta :: "int option"
  impactDelta :: "real option"
  insight :: "string option"

record changes =
  newIssues :: "issue list"
  improvedIssues :: "issue list"
  worsenedIssues :: "issue list"
  resolvedIssues :: "issue list"
  stableIssues :: "issue list"

record sentiment_trend =
  st_current :: sentiment_data
  st_previous :: sentiment_data
  st_delta :: int
  direction :: string
  moodChange :: bool

record volume_trend =
  v_current :: int
  v_previous :: int
  v_delta :: int
  v_direction :: string

record trends =
  t_sentiment :: "sentiment_trend option"
  t_volume :: volume_trend
  resolutionRate :: int
  newIssueRate :: int
  overallHealth :: int

record comparison =
  isFirstRun :: bool
  comparedAt :: "string option"
  previousSnapshotDate :: "string option"
  cmp_changes :: "changes option"
  cmp_trends :: "trends option"
  cmp_summary :: "string option"

datatype js_error = TypeError

text \<open>The key \<^verbatim>\<open>`${fa.category}:${fa.title}`\<close> of an area.\<close>

definition fa_key :: "focus_area \<Rightarrow> string" where
  "fa_key fa = area_key (fa_category fa) (fa_title fa)"

text \<open>
  \<^verbatim>\<open>new Map(areas.map(fa => [key, fa]))\<close>: a later entry with a key already present
  replaces the value and keeps the position of the first.
\<close>

definition area_map :: "focus_area list \<Rightarrow> (string \<times> focus_area) list" where
  "area_map fas = foldl (\<lambda>m fa. AList.update (fa_key fa) fa m) [] fas"

text \<open>\<^verbatim>\<open>str.replace(a, b)\<close> with a string pattern replaces the first occurrence only.\<close>

fun replace_first :: "char \<Rightarrow> char \<Rightarrow> string \<Rightarrow> string" where
  "replace_first a b [] = []"
| "replace_first a b (c # cs) = (if c = a then b # cs else c # replace_first a b cs)"

text \<open>The body of the first loop of \<^verbatim>\<open>compareSyntheses\<close>, over the entries of \<open>currentAreas\<close>.\<close>

definition compare_step ::
  "(string \<times> focus_area) list \<Rightarrow> changes \<Rightarrow> string \<times> focus_area \<Rightarrow> changes" where
  "compare_step previousAreas ch entry =
     (let key = fst entry; currentArea = snd entry in
      case map_of previousAreas key of
        None \<Rightarrow>
          ch\<lparr>newIssues := newIssues ch @
            [\<lparr>area = currentArea, changeType = ''new'', previousFrequency = None,
              frequencyDelta = None, impactDelta = None,
              insight = Some (''New ''
                @ replace_first CHR ''_'' CHR '' '' (category_str (fa_category currentArea))
                @ '' detected: '' @ dquote @ fa_title currentArea @ dquote)\<rparr>]\<rparr>
      | Some previousArea \<Rightarrow>
          (let freqDelta = fa_frequency currentArea - fa_frequency previousArea;
               impactDelta' = fsub (or_num (num (fa_impactScore currentArea)) 0)
                                   (or_num (num (fa_impactScore previousArea)) 0)
           in if freqDelta < - 2 \<or> impactDelta' < - 1 then
                ch\<lparr>improvedIssues := improvedIssues ch @
                  [\<lparr>area = currentArea, changeType = ''improved'',
                    previousFrequency = Some (fa_frequency previousArea),
                    frequencyDelta = Some freqDelta, impactDelta = Some impactDelta',
                    insight = Some (dquote @ fa_title currentArea @ dquote @ '' has improved: ''
                      @ show_int (abs freqDelta) @ '' fewer mentions'')\<rparr>]\<rparr>
              else if freqDelta > 2 \<or> impactDelta' > 1 then
                ch\<lparr>worsenedIssues := worsenedIssues ch @
                  [\<lparr>area = currentArea, changeType = ''worsened'',
                    previousFrequency = Some (fa_frequency previousArea),
                    frequencyDelta = Some freqDelta, impactDelta = Some impactDelta',
                    insight = Some (dquote @ fa_title currentArea @ dquote @ '' is growing: +''
                      @ show_int freqDelta @ '' more mentions'')\<rparr>]\<rparr>
              else
                ch\<lparr>stableIssues := stableIssues ch @
                  [\<lparr>area = currentArea, changeType = ''stable'',
                    previousFrequency = Some (fa_frequency previousArea),
                    frequencyDelta = Some freqDelta, impactDelta = Some impactDelta',
                    insight = None\<rparr>]\<rparr>))"

text \<open>The body of the second loop, over the entries of \<open>previousAreas\<close>.\<close>

definition resolve_step ::
  "(string \<times> focus_area) list \<Rightarrow> changes \<Rightarrow> string \<times> focus_area \<Rightarrow> changes" where
  "resolve_step currentAreas ch entry =
     (let key = fst entry; previousArea = snd entry in
      if map_of currentAreas key = None then
        ch\<lparr>resolvedIssues := resolvedIssues ch @
          [\<lparr>area = previousArea, changeType = ''resolved'', previousFrequency = None,
            frequencyDelta = None, impactDelta = None,
            insight = Some (dquote @ fa_title previousArea @ dquote
              @ '' no longer appearing in feedback'')\<rparr>]\<rparr>
      else ch)"

text \<open>Lines 21 to 94 of \<^verbatim>\<open>compareSyntheses\<close>: the two maps and the two passes.\<close>

definition compare_areas :: "focus_area list \<Rightarrow> focus_area list \<Rightarrow> changes" where
  "compare_areas cur prev =
     (let changes0 = \<lparr>newIssues = [], improvedIssues = [], worsenedIssues = [],
                       resolvedIssues = [], stableIssues = []\<rparr>;
          currentAreas = area_map cur;
          previousAreas = area_map prev;
          changes1 = foldl (compare_step previousAreas) changes0 currentAreas
      in foldl (resolve_step currentAreas) changes1 previousAreas)"

text \<open>\<^verbatim>\<open>calculateSentimentTrend(current, previous)\<close>\<close>

definition calculateSentimentTrend ::
  "sentiment_data option \<Rightarrow> sentiment_data option \<Rightarrow> sentiment_trend option" where
  "calculateSentimentTrend current previous =
     (case current of
        None \<Rightarrow> None
      | Some c \<Rightarrow>
          (case previous of
             None \<Rightarrow> None
           | Some p \<Rightarrow>
               (let currentPositiveRatio = fdiv (fl (s_positive c)) 100;
                    previousPositiveRatio = fdiv (fl (s_positive p)) 100;
                    delta = fsub currentPositiveRatio previousPositiveRatio
                in Some \<lparr>st_current = c, st_previous = p,
                         st_delta = js_round (fmul delta 100),
                         direction = (if delta > fl 0.02 then ''improving''
                                      else if delta < - fl 0.02 then ''declining''
                                      else ''stable''),
                         moodChange = (s_mood c \<noteq> s_mood p)\<rparr>)))"

text \<open>\<^verbatim>\<open>calculateDirection(current, previous)\<close>\<close>

definition calculateDirection :: "int \<Rightarrow> int \<Rightarrow> string" where
  "calculateDirection current previous =
     (let delta = current - previous;
          percentChange = (if previous > 0
                           then fmul (fdiv (real_of_int delta) (real_of_int previous)) 100
                           else 0)
      in if percentChange > 10 then ''up''
         else if percentChange < - 10 then ''down''
         else ''stable'')"

text \<open>\<^verbatim>\<open>calculateHealthScore(sentimentTrend, changes)\<close>\<close>

definition calculateHealthScore :: "sentiment_trend option \<Rightarrow> changes \<Rightarrow> int" where
  "calculateHealthScore sentimentTrend ch =
     (let score0 = 50;
          score1 = (if chain sentimentTrend (\<lambda>t. Some (direction t)) = Some ''improving''
                    then score0 + 15 else score0);
          score2 = (if chain sentimentTrend (\<lambda>t. Some (direction t)) = Some ''declining''
                    then score1 - 15 else score1);
          score3 = score2 + int (length (resolvedIssues ch)) * 5;
          criticalNew = int (length (filter
                          (\<lambda>i. fa_severityLabel (area i) = Some ''Critical'') (newIssues ch)));
          score4 = score3 - criticalNew * 10;
          score5 = score4 - int (length (worsenedIssues ch)) * 3;
          score6 = score5 + int (length (improvedIssues ch)) * 3
      in max 0 (min 100 (js_round (real_of_int score6))))"

text \<open>\<^verbatim>\<open>xs?.length || 1\<close>\<close>

definition length_or_1 :: "'a list option \<Rightarrow> int" where
  "length_or_1 xs = or_int (case xs of None \<Rightarrow> None | Some l \<Rightarrow> Some (int (length l))) 1"

text \<open>\<^verbatim>\<open>calculateOverallTrends(current, previous, changes)\<close>\<close>

definition calculateOverallTrends :: "synthesis \<Rightarrow> synthesis \<Rightarrow> changes \<Rightarrow> trends" where
  "calculateOverallTrends current previous ch =
     (let sentimentTrend = calculateSentimentTrend (syn_sentiment current) (syn_sentiment previous);
          cur_total = or_int (chain (syn_metadata current) totalAnalyzed) 0;
          prev_total = or_int (chain (syn_metadata previous) totalAnalyzed) 0;
          volumeTrend = \<lparr>v_current = cur_total, v_previous = prev_total,
                          v_delta = cur_total - prev_total,
                          v_direction = calculateDirection cur_total prev_total\<rparr>;
          resolutionRate' = fmul (fdiv (real (length (resolvedIssues ch)))
                                        (real_of_int (length_or_1 (focusAreas previous)))) 100;
          newIssueRate' = fmul (fdiv (real (length (newIssues ch)))
                                      (real_of_int (length_or_1 (focusAreas current)))) 100
      in \<lparr>t_sentiment = sentimentTrend,
          t_volume = volumeTrend,
          resolutionRate = js_round resolutionRate',
          newIssueRate = js_round newIssueRate',
          overallHealth = calculateHealthScore sentimentTrend ch\<rparr>)"

text \<open>\<^verbatim>\<open>generateChangeSummary(changes, trends)\<close>\<close>

definition generateChangeSummary :: "changes \<Rightarrow> trends \<Rightarrow> string" where
  "generateChangeSummary ch tr =
     (let parts1 =
            (if length (newIssues ch) > 0 then
               (let critical = filter (\<lambda>i. fa_severityLabel (area i) = Some ''Critical'')
                                 (newIssues ch)
                in if length critical > 0
                   then [show_int (int (length critical)) @ '' new critical issue(s) detected'']
                   else [show_int (int (length (newIssues ch))) @ '' new issue(s) emerged''])
             else []);
          parts2 = (if length (improvedIssues ch) > 0
                    then parts1 @ [show_int (int (length (improvedIssues ch)))
                                   @ '' issue(s) showing improvement'']
                    else parts1);
          parts3 = (if length (worsenedIssues ch) > 0
                    then parts2 @ [show_int (int (length (worsenedIssues ch)))
                                   @ '' issue(s) getting worse'']
                    else parts2);
          parts4 = (if length (resolvedIssues ch) > 0
                    then parts3 @ [show_int (int (length (resolvedIssues ch)))
                                   @ '' issue(s) resolved'']
                    else parts3);
          dir = chain (t_sentiment tr) (\<lambda>t. Some (direction t));
          parts = (if dir = Some ''improving'' then parts4 @ [''overall sentiment improving'']
                   else if dir = Some ''declining'' then parts4 @ [''overall sentiment declining'']
                   else parts4)
      in if length parts > 0 then join_with '', '' parts @ ''.''
         else ''No significant changes detected.'')"

text \<open>
  \<^verbatim>\<open>compareSyntheses(current, previous)\<close>. The time stamp \<^verbatim>\<open>new Date().toISOString()\<close>
  is the argument \<open>nowIso\<close>. Reading \<^verbatim>\<open>focusAreas\<close> of a missing \<open>current\<close>, or mapping
  over a missing \<^verbatim>\<open>focusAreas\<close>, throws a \<^verbatim>\<open>TypeError\<close>; the test of \<open>previous\<close> comes
  before any of that.
\<close>

definition compareSyntheses ::
  "string \<Rightarrow> synthesis option \<Rightarrow> synthesis option \<Rightarrow> js_error + comparison" where
  "compareSyntheses nowIso current previous =
     (case previous of
        None \<Rightarrow>
          Inr \<lparr>isFirstRun = True, comparedAt = None, previousSnapshotDate = None,
               cmp_changes = None, cmp_trends = None, cmp_summary = None\<rparr>
      | Some prev \<Rightarrow>
          (case chain current focusAreas of
             None \<Rightarrow> Inl TypeError
           | Some cur_areas \<Rightarrow>
               (case focusAreas prev of
                  None \<Rightarrow> Inl TypeError
                | Some prev_areas \<Rightarrow>
                    (case current of
                       None \<Rightarrow> Inl TypeError
                     | Some cur \<Rightarrow>
                         (let ch = compare_areas cur_areas prev_areas;
                              tr = calculateOverallTrends cur prev ch
                          in Inr \<lparr>isFirstRun = False,
                                  comparedAt = Some nowIso,
                                  previousSnapshotDate = syn_createdAt prev,
                                  cmp_changes = Some ch,
                                  cmp_trends = Some tr,
                                  cmp_summary = Some (generateChangeSummary ch tr)\<rparr>)))))"

text \<open>\<^verbatim>\<open>attachTrendData(focusAreas, comparison)\<close>: an area with its trend tag and delta.\<close>

record trend_area =
  ta_area :: focus_area
  trend :: string
  trendDelta :: "int option"

definition find_issue :: "string \<Rightarrow> issue list \<Rightarrow> issue option" where
  "find_issue key xs = List.find (\<lambda>i. fa_key (area i) = key) xs"

definition attach_one :: "changes \<Rightarrow> focus_area \<Rightarrow> trend_area" where
  "attach_one ch fa =
     (let key = fa_key fa;
          improved = find_issue key (improvedIssues ch);
          worsened = find_issue key (worsenedIssues ch);
          newIssue = find_issue key (newIssues ch);
          stable = find_issue key (stableIssues ch)
      in case newIssue of
           Some n \<Rightarrow> \<lparr>ta_area = fa, trend = ''new'', trendDelta = Some (fa_frequency fa)\<rparr>
         | None \<Rightarrow>
        (case improved of
           Some i \<Rightarrow> \<lparr>ta_area = fa, trend = ''down'', trendDelta = frequencyDelta i\<rparr>
         | None \<Rightarrow>
        (case worsened of
           Some w \<Rightarrow> \<lparr>ta_area = fa, trend = ''up'', trendDelta = frequencyDelta w\<rparr>
         | None \<Rightarrow>
        (case stable of
           Some s \<Rightarrow> \<lparr>ta_area = fa, trend = ''stable'', trendDelta = frequencyDelta s\<rparr>
         | None \<Rightarrow> \<lparr>ta_area = fa, trend = ''stable'', trendDelta = Some 0\<rparr>))))"

definition attachTrendData :: "focus_area list \<Rightarrow> comparison \<Rightarrow> js_error + trend_area list" where
  "attachTrendData fas cmp =
     (if isFirstRun cmp
      then Inr (map (\<lambda>fa. \<lparr>ta_area = fa, trend = ''new'', trendDelta = Some 0\<rparr>) fas)
      else (case cmp_changes cmp of
              None \<Rightarrow> (if fas = [] then Inr [] else Inl TypeError)
            | Some ch \<Rightarrow> Inr (map (attach_one ch) fas)))"

section \<open>Synthesis orchestrator: trend tags\<close>

text \<open>
  \<^verbatim>\<open>calculateTrend(currentArea, previousSnapshot)\<close> of the synthesizer, called on an area
  computed by the clusterer: it reads its title, category and frequency.
\<close>

definition find_previous :: "focus_cluster \<Rightarrow> focus_area list \<Rightarrow> focus_area option" where
  "find_previous currentArea fas =
     List.find (\<lambda>fa. fa_title fa = area_title currentArea
                   \<and> fa_category fa = area_category currentArea) fas"

definition calculateTrend :: "focus_cluster \<Rightarrow> synthesis option \<Rightarrow> string" where
  "calculateTrend currentArea previousSnapshot =
     (case chain previousSnapshot focusAreas of
        None \<Rightarrow> ''new''
      | Some fas \<Rightarrow>
          (case find_previous currentArea fas of
             None \<Rightarrow> ''new''
           | Some previous \<Rightarrow>
               (let delta = frequency currentArea - fa_frequency previous
                in if delta > 2 then ''up''
                   else if delta < - 2 then ''down''
                   else ''stable'')))"

text \<open>\<^verbatim>\<open>calculateTrendDelta(currentArea, previousSnapshot)\<close>\<close>

definition calculateTrendDelta :: "focus_cluster \<Rightarrow> synthesis option \<Rightarrow> int" where
  "calculateTrendDelta currentArea previousSnapshot =
     (case chain previousSnapshot focusAreas of
        None \<Rightarrow> 0
      | Some fas \<Rightarrow>
          (case find_previous currentArea fas of
             None \<Rightarrow> frequency currentArea
           | Some previous \<Rightarrow> frequency currentArea - fa_frequency previous))"

text \<open>
  A focus area returned by the narrative model (\<^verbatim>\<open>synthesis.focusAreas[idx]\<close>), and the
  merged object \<^verbatim>\<open>{...fa, ...llmArea, impactScore, trend, trendDelta}\<close> built by
  \<^verbatim>\<open>synthesizeFeedback\<close>: the two spreads are kept, and a property is read from the
  narrative area when there is one, from the computed area otherwise.
\<close>

record llm_area =
  llm_id :: string
  llm_title :: string
  llm_category :: focus_category
  llm_frequency :: int
  llm_severityLabel :: string
  llm_topQuote :: string
  llm_rootCause :: string
  llm_affectedSegments :: "string list"

record enhanced_area =
  base :: focus_cluster
  llm :: "llm_area option"
  e_impactScore :: real
  e_trend :: string
  e_trendDelta :: int

text \<open>\<^verbatim>\<open>xs[idx]\<close>, undefined beyond the end.\<close>

fun nth_opt :: "'a list \<Rightarrow> nat \<Rightarrow> 'a option" where
  "nth_opt [] n = None"
| "nth_opt (x # xs) 0 = Some x"
| "nth_opt (x # xs) (Suc n) = nth_opt xs n"

definition enhance :: "synthesis option \<Rightarrow> focus_cluster \<Rightarrow> llm_area option \<Rightarrow> enhanced_area" where
  "enhance previousSnapshot fa llmArea =
     \<lparr>base = fa,
      llm = llmArea,
      e_impactScore = avgImpact fa,
      e_trend = (case previousSnapshot of
                   None \<Rightarrow> ''new''
                 | Some p \<Rightarrow> calculateTrend fa previousSnapshot),
      e_trendDelta = (case previousSnapshot of
                        None \<Rightarrow> 0
                      | Some p \<Rightarrow> calculateTrendDelta fa previousSnapshot)\<rparr>"

text \<open>Lines 493 to 502 of \<^verbatim>\<open>synthesizeFeedback\<close>: the first ten areas, zipped by index.\<close>

definition enhanceFocusAreas ::
  "synthesis option \<Rightarrow> llm_area list \<Rightarrow> focus_cluster list \<Rightarrow> enhanced_area list" where
  "enhanceFocusAreas previousSnapshot llmAreas fas =
     map (\<lambda>p. enhance previousSnapshot (fst p) (nth_opt llmAreas (snd p)))
       (zip (take 10 fas) [0 ..< length (take 10 fas)])"

text \<open>
  The title, category, frequency, impact score and severity label of a merged area, as
  \<^verbatim>\<open>createSnapshot\<close> and the differential engine read them from the report.
\<close>

definition report_area :: "enhanced_area \<Rightarrow> focus_area" where
  "report_area e =
     \<lparr>fa_title = (case llm e of None \<Rightarrow> area_title (base e) | Some l \<Rightarrow> llm_title l),
      fa_category = (case llm e of None \<Rightarrow> area_category (base e) | Some l \<Rightarrow> llm_category l),
      fa_frequency = (case llm e of None \<Rightarrow> frequency (base e) | Some l \<Rightarrow> llm_frequency l),
      fa_impactScore = Some (e_impactScore e),
      fa_severityLabel = (case llm e of None \<Rightarrow> None | Some l \<Rightarrow> Some (llm_severityLabel l))\<rparr>"

section \<open>Notions used in the statements\<close>

text \<open>The quotes an item contributes to its group: its key quote, when it has a non-empty one.\<close>

definition item_quotes :: "scored_item \<Rightarrow> string list" where
  "item_quotes i = (case chain (summary (src i)) keyQuote of
                      None \<Rightarrow> [] | Some q \<Rightarrow> if q = [] then [] else [q])"

text \<open>
  The impact delta of a current area \<open>c\<close> and the previous area \<open>p\<close> with the same
  key, a difference of doubles; the two threshold tests of the differential engine; and
  the keys of the entries of a bucket.
\<close>

definition impact_delta :: "focus_area \<Rightarrow> focus_area \<Rightarrow> real" where
  "impact_delta c p =
     fsub (or_num (num (fa_impactScore c)) 0) (or_num (num (fa_impactScore p)) 0)"

definition is_improved :: "focus_area \<Rightarrow> focus_area \<Rightarrow> bool" where
  "is_improved c p = (fa_frequency c - fa_frequency p < - 2 \<or> impact_delta c p < - 1)"

definition is_worsened :: "focus_area \<Rightarrow> focus_area \<Rightarrow> bool" where
  "is_worsened c p = (fa_frequency c - fa_frequency p > 2 \<or> impact_delta c p > 1)"

definition issue_keys :: "issue list \<Rightarrow> string list" where
  "issue_keys xs = map (\<lambda>i. fa_key (area i)) xs"

text \<open>
  The tags of the differential engine for the areas of a report: the comparison with the
  previous snapshot, then \<^verbatim>\<open>attachTrendData\<close> on the report's own areas.
\<close>

definition engine_tags :: "string \<Rightarrow> synthesis \<Rightarrow> synthesis \<Rightarrow> js_error + string list" where
  "engine_tags nowIso current previous =
     (case compareSyntheses nowIso (Some current) (Some previous) of
        Inl e \<Rightarrow> Inl e
      | Inr cmp \<Rightarrow>
          (case attachTrendData (case focusAreas current of None \<Rightarrow> [] | Some fas \<Rightarrow> fas) cmp of
             Inl e \<Rightarrow> Inl e
           | Inr tas \<Rightarrow> Inr (map trend tas)))"

text \<open>
  The impact formula as the specification words it, in the arithmetic of the program:
  \<open>round1\<close> rounds to one decimal place (times ten, to the nearest integer, by ten);
  reach, sentiment and velocity are the three sub-scores, the velocity being twice the
  engagement per hour. The fallback of the sentiment is JavaScript's \<^verbatim>\<open>||\<close>, taken
  when the score is missing or zero.
\<close>

definition round1 :: "real \<Rightarrow> real" where
  "round1 x = fdiv (real_of_int (round (fmul x 10))) 10"

definition spec_reach :: "int \<Rightarrow> int \<Rightarrow> real" where
  "spec_reach ups comments = min 10 (fdiv (real_of_int (ups + comments * 2)) 20)"

definition spec_sentiment :: "item \<Rightarrow> real" where
  "spec_sentiment item =
     (if itype item = ''Constructive''
      then or_num (num (chain (problemMetadata item) impactScore)) 7
      else if itype item = ''Praise''
      then or_num (num (chain (delightMetadata item) shareability)) 7
      else 5)"

definition spec_velocity :: "int \<Rightarrow> int \<Rightarrow> real \<Rightarrow> real" where
  "spec_velocity ups comments ageHours =
     min 10 (fmul (fdiv (real_of_int (ups + comments)) (max 1 ageHours)) 2)"

section \<open>Concrete inputs\<close>

text \<open>
  The first mock item of the synthesizer's command-line test, created at time \<open>0\<close> and
  scored twenty-four hours later; a short rant; an item of type Praise whose
  classification category is Feature Request; a minor report on the feature area of the
  mock item, four hours old, whose weighted sum falls just below 1.45 in doubles; and a
  constructive item with a short body, whose signal score \<^verbatim>\<open>0.5 + 0.2 - 0.2\<close> falls
  just below 0.5 in doubles.
\<close>

definition mock_now :: int where
  "mock_now = 24 * 60 * 60 * 1000"

definition mock_item :: item where
  "mock_item =
     \<lparr>sourceId = Some ''mock-1'',
      title = Some ''Performance issues'',
      body = Some ''Large databases freeze for 30+ seconds'',
      content = None,
      upvotes = Some 234,
      score = None,
      numComments = Some 89,
      duplicateCount = None,
      createdAt = Some 0,
      itype = ''Constructive'',
      category = ''Usability Friction'',
      problemMetadata = Some \<lparr>featureArea = Some ''Database Performance'',
                              impactScore = Some 9,
                              userSegmentGuess = Some ''Power Users''\<rparr>,
      delightMetadata = None,
      summary = Some \<lparr>keyQuote = Some ''Database freezes with large tables''\<rparr>\<rparr>"

definition rant_item :: item where
  "rant_item =
     \<lparr>sourceId = Some ''rant-1'',
      title = None,
      body = Some ''Worst update ever, I am done..'',
      content = None,
      upvotes = Some 0,
      score = None,
      numComments = None,
      duplicateCount = None,
      createdAt = None,
      itype = ''Neutral'',
      category = ''Rant/Opinion'',
      problemMetadata = None,
      delightMetadata = None,
      summary = None\<rparr>"

definition praise_request_item :: item where
  "praise_request_item =
     \<lparr>sourceId = Some ''praise-1'',
      title = Some ''AI is amazing'',
      body = Some ''Just used AI to summarize 50 pages of notes'',
      content = None,
      upvotes = Some 156,
      score = None,
      numComments = Some 23,
      duplicateCount = None,
      createdAt = Some 43200000,
      itype = ''Praise'',
      category = ''Feature Request'',
      problemMetadata = None,
      delightMetadata = Some \<lparr>ahaMonent = Some ''AI Features'', shareability = Some 9\<rparr>,
      summary = Some \<lparr>keyQuote = Some ''AI saved me hours of work!''\<rparr>\<rparr>"

definition minor_item :: item where
  "minor_item =
     \<lparr>sourceId = Some ''minor-1'',
      title = Some ''Slow export'',
      body = Some ''Exporting a large table to CSV takes a few seconds longer than before'',
      content = None,
      upvotes = Some 1,
      score = None,
      numComments = Some 2,
      duplicateCount = None,
      createdAt = Some 72000000,
      itype = ''Constructive'',
      category = ''Usability Friction'',
      problemMetadata = Some \<lparr>featureArea = Some ''Database Performance'',
                              impactScore = Some 3,
                              userSegmentGuess = None\<rparr>,
      delightMetadata = None,
      summary = Some \<lparr>keyQuote = Some ''Export got slower''\<rparr>\<rparr>"

definition borderline_item :: item where
  "borderline_item =
     \<lparr>sourceId = Some ''border-1'',
      title = None,
      body = Some ''Crashes on save'',
      content = None,
      upvotes = Some 3,
      score = None,
      numComments = None,
      duplicateCount = None,
      createdAt = None,
      itype = ''Constructive'',
      category = ''Usability Friction'',
      problemMetadata = None,
      delightMetadata = None,
      summary = None\<rparr>"

text \<open>
  The mock item, the minor item and the Praise item as the signal filter returns them,
  and the focus area the mock item forms alone.
\<close>

definition mock_scored :: scored_item where
  "mock_scored =
     \<lparr>src = mock_item, signalScore = calculateSignalScore mock_item,
      impactData = Some (calculateImpactScore mock_now mock_item 1)\<rparr>"

definition minor_scored :: scored_item where
  "minor_scored =
     \<lparr>src = minor_item, signalScore = calculateSignalScore minor_item,
      impactData = Some (calculateImpactScore mock_now minor_item 1)\<rparr>"

definition praise_scored :: scored_item where
  "praise_scored =
     \<lparr>src = praise_request_item, signalScore = calculateSignalScore praise_request_item,
      impactData = Some (calculateImpactScore mock_now praise_request_item 1)\<rparr>"

definition mock_cluster :: focus_cluster where
  "mock_cluster =
     \<lparr>area_id = ''usability_friction:Database Performance'',
      area_title = ''Database Performance'',
      area_category = usability_friction,
      items = [mock_scored],
      totalScore = fl 9.7,
      quotes = [''Database freezes with large tables''],
      segments = [''Power Users''],
      frequency = 1,
      avgImpact = fl 9.7,
      topQuote = ''Database freezes with large tables'',
      affectedSegments = [''Power Users''],
      area_stakes = \<lparr>stakes_type = ''risk'',
        message = ''Risk if ignored: Potential churn of Power Users, negative word-of-mouth amplification.''\<rparr>,
      scoreRationale = ''Score reflects high visibility (234 upvotes), strong sentiment intensity, rapid engagement growth.''\<rparr>"

text \<open>
  The area of the mock item as a snapshot stores it, with frequency \<open>f\<close> and impact
  score \<open>s\<close>, and a snapshot (or a report, as the engine reads it) with given areas.
\<close>

definition snapshot_area :: "int \<Rightarrow> real \<Rightarrow> focus_area" where
  "snapshot_area f s =
     \<lparr>fa_title = ''Database Performance'', fa_category = usability_friction,
      fa_frequency = f, fa_impactScore = Some s, fa_severityLabel = None\<rparr>"

definition snapshot_of :: "focus_area list \<Rightarrow> synthesis" where
  "snapshot_of fas =
     \<lparr>focusAreas = Some fas, syn_sentiment = None, syn_metadata = None,
      syn_createdAt = Some ''2025-01-01T00:00:00.000Z''\<rparr>"

text \<open>The areas of the scenario of the specification: Sync, a bug, with frequency \<open>f\<close>.\<close>

definition sync_area :: "int \<Rightarrow> focus_area" where
  "sync_area f =
     \<lparr>fa_title = ''Sync'', fa_category = bug, fa_frequency = f,
      fa_impactScore = Some 6, fa_severityLabel = None\<rparr>"

section \<open>Auxiliary facts\<close>

subsection \<open>Doubles\<close>

text \<open>
  The rules that evaluate \<open>fl\<close> at a numeral. \<open>expo\<close> is at or below its argument,
  every value of \<open>fl\<close> is a multiple of the least subnormal, and so the difference of
  two doubles that are not equal does not round to zero: it keeps its sign.
\<close>

lemma bits_eval:
  "bits 0 = 0" "bits (Suc 0) = 1" "bits 1 = 1"
  "bits (numeral k) = Suc (bits (numeral k div 2))"
  by (subst bits.simps, simp)+

lemma round_even_eval:
  "round_even m = (if m - real_of_int \<lfloor>m\<rfloor> < 1 / 2 then \<lfloor>m\<rfloor>
                   else if m - real_of_int \<lfloor>m\<rfloor> > 1 / 2 then \<lfloor>m\<rfloor> + 1
                   else if even \<lfloor>m\<rfloor> then \<lfloor>m\<rfloor> else \<lfloor>m\<rfloor> + 1)"
  by (simp add: round_even_def Let_def)

lemma fl_unfold:
  "fl x = (if x = 0 then 0
           else sgn x * real_of_int (round_even (\<bar>x\<bar> / pow2 (max (expo \<bar>x\<bar> - 52) (- 1074))))
                * pow2 (max (expo \<bar>x\<bar> - 52) (- 1074)))"
  by (simp add: fl_def Let_def)

lemmas fl_eval = fl_unfold expo_def pow2_def round_even_eval bits_eval

lemmas f_eval = fadd_def fsub_def fmul_def fdiv_def fl_eval

lemma bits_bounds: "n > 0 \<Longrightarrow> 2 ^ (bits n - 1) \<le> n \<and> n < 2 ^ bits n"
proof (induction n rule: bits.induct)
  case (1 n)
  show ?case
  proof (cases "n div 2 = 0")
    case True
    with "1.prems" have "n = 1" by (simp add: div_eq_0_iff)
    then show ?thesis by (simp add: bits.simps)
  next
    case False
    then have m: "n div 2 > 0" by simp
    from "1.IH"[OF _ m] "1.prems"
    have ih: "2 ^ (bits (n div 2) - 1) \<le> n div 2" "n div 2 < 2 ^ bits (n div 2)" by simp_all
    have b: "bits n = Suc (bits (n div 2))" using "1.prems" by (simp add: bits.simps[of n])
    have bp: "bits (n div 2) > 0" using m by (simp add: bits.simps[of "n div 2"])
    have "2 ^ (bits n - 1) = 2 * 2 ^ (bits (n div 2) - 1)"
      unfolding b using bp by (cases "bits (n div 2)") simp_all
    also have "\<dots> \<le> 2 * (n div 2)" using ih(1) by simp
    also have "\<dots> \<le> n" by simp
    finally have l: "2 ^ (bits n - 1) \<le> n" .
    have "n < 2 * (n div 2) + 2" by presburger
    also have "\<dots> \<le> 2 * 2 ^ bits (n div 2)" using ih(2) by simp
    finally have u: "n < 2 ^ bits n" unfolding b by simp
    from l u show ?thesis by simp
  qed
qed

lemma pow2_pos: "pow2 e > 0"
  by (simp add: pow2_def)

lemma pow2_powr: "pow2 e = 2 powr (real_of_int e)"
proof (cases "e \<ge> 0")
  case True
  then show ?thesis by (simp add: pow2_def powr_realpow[symmetric])
next
  case False
  then have "2 powr (real_of_int e) = 1 / 2 powr (real (nat (- e)))"
    by (simp add: powr_minus_divide[symmetric])
  with False show ?thesis by (simp add: pow2_def powr_realpow[symmetric])
qed

lemma pow2_add: "pow2 (a + b) = pow2 a * pow2 b"
  by (simp add: pow2_powr powr_add)

lemma pow2_mono: "a \<le> b \<Longrightarrow> pow2 a \<le> pow2 b"
  by (simp add: pow2_powr)

lemma expo_lower_ge1:
  assumes "x \<ge> 1"
  shows "pow2 (expo x) \<le> x"
proof -
  let ?n = "nat \<lfloor>x\<rfloor>"
  have n: "?n > 0" using assms by simp
  from bits_bounds[OF n] have "2 ^ (bits ?n - 1) \<le> ?n" by simp
  then have "real (2 ^ (bits ?n - 1)) \<le> real ?n" by (rule of_nat_mono)
  also have "\<dots> \<le> x" using assms by simp
  finally have le: "2 ^ (bits ?n - 1) \<le> x" by simp
  have bp: "bits ?n > 0" using n by (simp add: bits.simps[of ?n])
  then have e: "int (bits ?n) - 1 = int (bits ?n - 1)" by simp
  have "expo x = int (bits ?n) - 1" using assms by (simp add: expo_def)
  then have "pow2 (expo x) = 2 ^ (bits ?n - 1)"
    unfolding e by (simp add: pow2_def)
  with le show ?thesis by simp
qed

lemma nat_pred_real: "(k::int) \<ge> 2 \<Longrightarrow> real (nat (k - 1)) + 1 = real_of_int k"
  by simp

lemma expo_lower_lt1:
  assumes x: "x > 0" and lt: "x < 1"
  shows "pow2 (expo x) \<le> x"
proof -
  obtain k where k: "k = \<lceil>1 / x\<rceil>" by simp
  let ?m = "nat (k - 1)"
  from lt x have "1 / x > 1" by simp
  then have c: "k \<ge> 2" unfolding k by linarith
  then have m: "?m > 0" by simp
  from bits_bounds[OF m] have "?m < 2 ^ bits ?m" by (rule conjunct2)
  then have "?m + 1 \<le> 2 ^ bits ?m" by linarith
  then have "real (?m + 1) \<le> real (2 ^ bits ?m)" by (rule of_nat_mono)
  then have "real ?m + 1 \<le> 2 ^ bits ?m" by simp
  then have "real_of_int k \<le> 2 ^ bits ?m" unfolding nat_pred_real[OF c] .
  moreover have "1 / x \<le> real_of_int k" unfolding k by (rule le_of_int_ceiling)
  ultimately have le: "1 / x \<le> 2 ^ bits ?m" by linarith
  have "1 \<le> x * 2 ^ bits ?m"
  proof -
    have "x * (1 / x) \<le> x * 2 ^ bits ?m" using le x by (intro mult_left_mono) simp_all
    then show ?thesis using x by simp
  qed
  then have "1 / 2 ^ bits ?m \<le> x" by (simp add: divide_le_eq)
  moreover have "expo x = - int (bits ?m)" using lt unfolding k by (simp add: expo_def)
  then have "pow2 (expo x) = 1 / 2 ^ bits ?m" by (simp add: pow2_def)
  ultimately show ?thesis by simp
qed

lemma expo_lower: "x > 0 \<Longrightarrow> pow2 (expo x) \<le> x"
  using expo_lower_ge1[of x] expo_lower_lt1[of x] by (cases "x \<ge> 1") simp_all

lemma round_even_ge1: "m \<ge> 1 \<Longrightarrow> round_even m \<ge> 1"
proof -
  assume "m \<ge> 1"
  then have "\<lfloor>m\<rfloor> \<ge> 1" by simp
  then show ?thesis by (simp add: round_even_def Let_def)
qed

lemma fl_zero: "fl 0 = 0"
  by (simp add: fl_def)

lemma fl_minus: "fl (- x) = - fl x"
  by (simp add: fl_def Let_def sgn_minus)

lemma fl_grid: "\<exists>k::int. fl x = real_of_int k * pow2 (- 1074)"
proof (cases "x = 0")
  case True
  then have "fl x = real_of_int 0 * pow2 (- 1074)" by (simp add: fl_def)
  then show ?thesis by blast
next
  case False
  define e where "e = max (expo \<bar>x\<bar> - 52) (- 1074)"
  define n where "n = round_even (\<bar>x\<bar> / pow2 e)"
  have f: "fl x = sgn x * real_of_int n * pow2 e"
    using False by (simp add: fl_def Let_def e_def n_def)
  have "e \<ge> - 1074" by (simp add: e_def)
  then have p: "pow2 (e + 1074) = real_of_int (2 ^ nat (e + 1074))" by (simp add: pow2_def)
  have "pow2 e = pow2 ((e + 1074) + (- 1074))" by simp
  also have "\<dots> = pow2 (e + 1074) * pow2 (- 1074)" by (rule pow2_add)
  finally have pe: "pow2 e = real_of_int (2 ^ nat (e + 1074)) * pow2 (- 1074)" unfolding p .
  have s: "sgn x = real_of_int (if x > 0 then 1 else - 1)" using False by (simp add: sgn_if)
  have "fl x = real_of_int ((if x > 0 then 1 else - 1) * n * 2 ^ nat (e + 1074)) * pow2 (- 1074)"
    unfolding f s pe by simp
  then show ?thesis by blast
qed

lemma fl_pos:
  assumes "x \<ge> pow2 (- 1074)"
  shows "fl x > 0"
proof -
  have xp: "x > 0" using assms pow2_pos[of "- 1074"] by linarith
  define e where "e = max (expo \<bar>x\<bar> - 52) (- 1074)"
  define n where "n = round_even (\<bar>x\<bar> / pow2 e)"
  have f: "fl x = real_of_int n * pow2 e"
    using xp by (simp add: fl_def Let_def e_def n_def)
  have le: "pow2 e \<le> x"
  proof (cases "expo \<bar>x\<bar> - 52 \<le> - 1074")
    case True
    then have "e = - 1074" by (simp add: e_def)
    with assms show ?thesis by simp
  next
    case False
    then have "e = expo x - 52" using xp by (simp add: e_def)
    then have "pow2 e \<le> pow2 (expo x)" by (simp add: pow2_mono)
    also have "\<dots> \<le> x" by (rule expo_lower[OF xp])
    finally show ?thesis .
  qed
  then have "\<bar>x\<bar> / pow2 e \<ge> 1" using xp pow2_pos[of e] by (simp add: le_divide_eq)
  then have "n \<ge> 1" unfolding n_def by (rule round_even_ge1)
  then have "real_of_int n \<ge> 1" by simp
  then have "real_of_int n * pow2 e > 0" using pow2_pos[of e] by (intro mult_pos_pos) simp_all
  then show ?thesis unfolding f .
qed

lemma fsub_sign:
  "(fsub (fl u) (fl v) < 0 \<longleftrightarrow> fl u < fl v)
   \<and> (fsub (fl u) (fl v) = 0 \<longleftrightarrow> fl u = fl v)
   \<and> (fsub (fl u) (fl v) > 0 \<longleftrightarrow> fl u > fl v)"
proof -
  let ?g = "pow2 (- 1074)"
  have g: "?g > 0" by (rule pow2_pos)
  from fl_grid[of u] obtain a where a: "fl u = real_of_int a * ?g" by blast
  from fl_grid[of v] obtain b where b: "fl v = real_of_int b * ?g" by blast
  have d: "fl u - fl v = real_of_int (a - b) * ?g" unfolding a b by (simp add: algebra_simps)
  consider "a = b" | "a > b" | "a < b" by linarith
  then show ?thesis
  proof cases
    case 1
    then have "fl u = fl v" unfolding a b by simp
    then show ?thesis by (simp add: fsub_def fl_zero)
  next
    case 2
    then have "real_of_int (a - b) \<ge> 1" by simp
    then have "real_of_int (a - b) * ?g \<ge> 1 * ?g" using g by (intro mult_right_mono) simp_all
    then have ge: "fl u - fl v \<ge> ?g" unfolding d by simp
    then have "fsub (fl u) (fl v) > 0" unfolding fsub_def by (rule fl_pos)
    moreover have "fl u > fl v" using ge g by linarith
    ultimately show ?thesis by simp
  next
    case 3
    then have "real_of_int (b - a) \<ge> 1" by simp
    then have "real_of_int (b - a) * ?g \<ge> 1 * ?g" using g by (intro mult_right_mono) simp_all
    moreover have "fl v - fl u = real_of_int (b - a) * ?g" unfolding a b by (simp add: algebra_simps)
    ultimately have ge: "fl v - fl u \<ge> ?g" by simp
    then have "fl (fl v - fl u) > 0" by (rule fl_pos)
    moreover have "fl (fl u - fl v) = - fl (fl v - fl u)"
      using fl_minus[of "fl v - fl u"] by simp
    ultimately have "fsub (fl u) (fl v) < 0" unfolding fsub_def by simp
    moreover have "fl u < fl v" using ge g by linarith
    ultimately show ?thesis by simp
  qed
qed


subsection \<open>Rounding and sorting\<close>

lemma js_round_of_int: "js_round (real_of_int n) = n"
  unfolding js_round_def by linarith

subsection \<open>The loop of the signal filter\<close>

text \<open>
  The loop appends to one of the two lists, so each list is the image of the input
  filtered by the threshold test.
\<close>

lemma filter_fold_high:
  "highSignal (foldl (filter_step now n) acc xs) =
     highSignal acc @
     map (\<lambda>i. \<lparr>src = i, signalScore = calculateSignalScore i,
                impactData = Some (calculateImpactScore now i n)\<rparr>)
       (filter (\<lambda>i. calculateSignalScore i \<ge> fl 0.5) xs)"
  by (induction xs arbitrary: acc) (simp_all add: filter_step_def Let_def)

lemma filter_fold_noise:
  "noise (foldl (filter_step now n) acc xs) =
     noise acc @
     map (\<lambda>i. \<lparr>src = i, signalScore = calculateSignalScore i, impactData = None\<rparr>)
       (filter (\<lambda>i. \<not> calculateSignalScore i \<ge> fl 0.5) xs)"
  by (induction xs arbitrary: acc) (simp_all add: filter_step_def Let_def)

lemma sort_desc_mset: "mset (sort_desc k xs) = mset xs"
  by (simp add: sort_desc_def)

lemma sort_desc_set: "set (sort_desc k xs) = set xs"
  by (simp add: sort_desc_def)

lemma sort_desc_sorted: "sorted_wrt (\<lambda>a b. k a \<ge> k b) (sort_desc k xs)"
proof -
  have "sorted (map (\<lambda>x. - k x) (sort_key (\<lambda>x. - k x) xs))" by (rule sorted_sort_key)
  then show ?thesis by (simp add: sort_desc_def sorted_map sorted_wrt_iff_nth_less)
qed

lemma highSignal_filter:
  "highSignal (filterSignalFromNoise now xs) =
     sort_desc impact_of (map (\<lambda>i. \<lparr>src = i, signalScore = calculateSignalScore i,
                impactData = Some (calculateImpactScore now i (length xs))\<rparr>)
       (filter (\<lambda>i. calculateSignalScore i \<ge> fl 0.5) xs))"
  by (simp add: filterSignalFromNoise_def Let_def filter_fold_high)

lemma impact_of_eq:
  "impact_of x = (case impactData x of None \<Rightarrow> 0 | Some d \<Rightarrow> iscore d)"
  by (simp add: impact_of_def chain_def or_num_def split: option.splits)

lemma insort_key_map_list:
  "insort_key f (h x) (map h ys) = map h (insort_key (\<lambda>y. f (h y)) x ys)"
  by (induction ys) simp_all

lemma sort_key_map_list: "sort_key f (map h ys) = map h (sort_key (\<lambda>y. f (h y)) ys)"
  by (induction ys) (simp_all add: insort_key_map_list)

text \<open>
  The items of \<open>highSignal\<close>, in order: the stable sort, by descending impact score, of
  the input items whose signal score is at least 0.5.
\<close>

lemma highSignal_sources:
  "map src (highSignal (filterSignalFromNoise now xs)) =
     sort_key (\<lambda>i. - iscore (calculateImpactScore now i (length xs)))
       (filter (\<lambda>i. calculateSignalScore i \<ge> fl 0.5) xs)"
  unfolding highSignal_filter sort_desc_def sort_key_map_list
  by (simp add: comp_def impact_of_eq)

lemma noise_filter:
  "noise (filterSignalFromNoise now xs) =
     map (\<lambda>i. \<lparr>src = i, signalScore = calculateSignalScore i, impactData = None\<rparr>)
       (filter (\<lambda>i. \<not> calculateSignalScore i \<ge> fl 0.5) xs)"
  by (simp add: filterSignalFromNoise_def Let_def filter_fold_noise)

subsection \<open>The loop of the clusterer\<close>

text \<open>
  A category string has no colon, so the key determines category and feature area. The
  dictionary built by the loop holds, under each key, the items with that key in input
  order, with their running sum and their quotes.
\<close>

lemma area_key_inj: "area_key c t = area_key c' t' \<longleftrightarrow> c = c' \<and> t = t'"
  by (cases c; cases c') (simp_all add: area_key_def)

lemma cluster_step_other:
  "k \<noteq> clusterKey (src x) \<Longrightarrow> map_of (cluster_step A x) k = map_of A k"
  by (simp add: cluster_step_def Let_def update_conv' clusterKey_def)

lemma cluster_step_keys:
  "fst ` set (cluster_step A x) = insert (clusterKey (src x)) (fst ` set A)"
  by (simp add: cluster_step_def Let_def dom_update clusterKey_def)

lemma cluster_step_distinct:
  "distinct (map fst A) \<Longrightarrow> distinct (map fst (cluster_step A x))"
  by (simp add: cluster_step_def Let_def distinct_update)

lemma cluster_step_new:
  assumes "map_of A (clusterKey (src x)) = None"
  shows "\<exists>a. map_of (cluster_step A x) (clusterKey (src x)) = Some a
    \<and> acc_id a = clusterKey (src x)
    \<and> acc_title a = featureAreaOf (src x)
    \<and> acc_category a = focusCategoryOf (src x)
    \<and> acc_items a = [x]
    \<and> acc_totalScore a = fadd 0 (impact_of x)
    \<and> acc_quotes a = item_quotes x"
  using assms
  by (simp add: cluster_step_def Let_def update_conv' clusterKey_def item_quotes_def
           split: option.splits)

lemma cluster_step_old:
  assumes "map_of A (clusterKey (src x)) = Some a0"
  shows "\<exists>a. map_of (cluster_step A x) (clusterKey (src x)) = Some a
    \<and> acc_id a = acc_id a0
    \<and> acc_title a = acc_title a0
    \<and> acc_category a = acc_category a0
    \<and> acc_items a = acc_items a0 @ [x]
    \<and> acc_totalScore a = fadd (acc_totalScore a0) (impact_of x)
    \<and> acc_quotes a = acc_quotes a0 @ item_quotes x"
  using assms
  by (simp add: cluster_step_def Let_def update_conv' clusterKey_def item_quotes_def
           split: option.splits)

lemma cluster_fold_keys:
  "fst ` set (foldl cluster_step [] its) = (\<lambda>i. clusterKey (src i)) ` set its"
  by (induction its rule: rev_induct) (auto simp: cluster_step_keys)

lemma cluster_fold_distinct: "distinct (map fst (foldl cluster_step [] its))"
  by (induction its rule: rev_induct) (simp_all add: cluster_step_distinct)

lemma cluster_fold_area:
  "map_of (foldl cluster_step [] its) k = Some a \<Longrightarrow>
     acc_id a = k \<and> acc_items a = filter (\<lambda>i. clusterKey (src i) = k) its
     \<and> (\<exists>i rest. acc_items a = i # rest \<and> acc_title a = featureAreaOf (src i)
           \<and> acc_category a = focusCategoryOf (src i))
     \<and> acc_totalScore a = foldl fadd 0 (map impact_of (acc_items a))
     \<and> acc_quotes a = concat (map item_quotes (acc_items a))"
proof (induction its arbitrary: a rule: rev_induct)
  case Nil
  then show ?case by simp
next
  case (snoc x xs)
  let ?A = "foldl cluster_step [] xs"
  have step: "map_of (cluster_step ?A x) k = Some a" using snoc.prems by simp
  show ?case
  proof (cases "k = clusterKey (src x)")
    case False
    then have "map_of ?A k = Some a" using step by (simp add: cluster_step_other)
    from snoc.IH[OF this] have ih: "acc_id a = k \<and> acc_items a = filter (\<lambda>i. clusterKey (src i) = k) xs
     \<and> (\<exists>i rest. acc_items a = i # rest \<and> acc_title a = featureAreaOf (src i)
           \<and> acc_category a = focusCategoryOf (src i))
     \<and> acc_totalScore a = foldl fadd 0 (map impact_of (acc_items a))
     \<and> acc_quotes a = concat (map item_quotes (acc_items a))" .
    have flt: "filter (\<lambda>i. clusterKey (src i) = k) (xs @ [x]) = filter (\<lambda>i. clusterKey (src i) = k) xs"
      using False by auto
    show ?thesis unfolding flt by (rule ih)
  next
    case True
    show ?thesis
    proof (cases "map_of ?A k")
      case None
      then have "k \<notin> fst ` set ?A" by (simp add: map_of_eq_None_iff)
      then have none: "filter (\<lambda>i. clusterKey (src i) = k) xs = []"
        unfolding cluster_fold_keys by (auto simp: filter_empty_conv)
      from cluster_step_new[of ?A x] None True step
      have "acc_id a = k \<and> acc_title a = featureAreaOf (src x)
        \<and> acc_category a = focusCategoryOf (src x) \<and> acc_items a = [x]
        \<and> acc_totalScore a = fadd 0 (impact_of x) \<and> acc_quotes a = item_quotes x" by auto
      with none True show ?thesis by simp
    next
      case (Some a0)
      from cluster_step_old[of ?A x a0] Some True step
      have a: "acc_id a = acc_id a0 \<and> acc_title a = acc_title a0
        \<and> acc_category a = acc_category a0 \<and> acc_items a = acc_items a0 @ [x]
        \<and> acc_totalScore a = fadd (acc_totalScore a0) (impact_of x)
        \<and> acc_quotes a = acc_quotes a0 @ item_quotes x" by auto
      from snoc.IH[OF Some] obtain i rest where ih:
        "acc_id a0 = k" "acc_items a0 = filter (\<lambda>i. clusterKey (src i) = k) xs"
        "acc_items a0 = i # rest" "acc_title a0 = featureAreaOf (src i)"
        "acc_category a0 = focusCategoryOf (src i)"
        "acc_totalScore a0 = foldl fadd 0 (map impact_of (acc_items a0))"
        "acc_quotes a0 = concat (map item_quotes (acc_items a0))" by blast
      have flt: "filter (\<lambda>i. clusterKey (src i) = k) (xs @ [x]) = acc_items a"
        using a ih(2) True by simp
      have ex: "\<exists>i rest. acc_items a = i # rest \<and> acc_title a = featureAreaOf (src i)
           \<and> acc_category a = focusCategoryOf (src i)"
        using a ih(3,4,5) by simp
      have "acc_id a = k" using a ih(1) by simp
      moreover have "acc_totalScore a = foldl fadd 0 (map impact_of (acc_items a))"
        using a ih(6) by simp
      moreover have "acc_quotes a = concat (map item_quotes (acc_items a))"
        using a ih(7) by simp
      ultimately show ?thesis unfolding flt using ex by blast
    qed
  qed
qed

lemma cluster_fold_entry:
  assumes "kv \<in> set (foldl cluster_step [] its)"
  shows "map_of (foldl cluster_step [] its) (fst kv) = Some (snd kv)"
proof -
  have "(fst kv, snd kv) \<in> set (foldl cluster_step [] its)" using assms by simp
  then show ?thesis by (simp only: map_of_eq_Some_iff[OF cluster_fold_distinct])
qed

lemma cluster_fold_ids:
  "map (\<lambda>kv. acc_id (snd kv)) (foldl cluster_step [] its) = map fst (foldl cluster_step [] its)"
proof (rule map_cong[OF refl])
  fix kv assume "kv \<in> set (foldl cluster_step [] its)"
  from cluster_fold_area[OF cluster_fold_entry[OF this]] show "acc_id (snd kv) = fst kv" by simp
qed

lemma cluster_set:
  "set (clusterIntoFocusAreas its) = (\<lambda>kv. finalize (snd kv)) ` set (foldl cluster_step [] its)"
  by (simp add: clusterIntoFocusAreas_def sort_desc_def)

lemma cluster_distinct_ids: "distinct (map area_id (clusterIntoFocusAreas its))"
proof -
  have "mset (map area_id (clusterIntoFocusAreas its))
        = mset (map (\<lambda>kv. acc_id (snd kv)) (foldl cluster_step [] its))"
    unfolding clusterIntoFocusAreas_def
    by (simp only: mset_map sort_desc_mset) (simp add: image_mset.compositionality comp_def finalize_def flip: mset_map)
  also have "\<dots> = mset (map fst (foldl cluster_step [] its))" by (simp only: cluster_fold_ids)
  finally show ?thesis using cluster_fold_distinct[of its] by (metis mset_eq_imp_distinct_iff)
qed

lemma cluster_area:
  assumes "a \<in> set (clusterIntoFocusAreas its)"
  shows "\<exists>acc. a = finalize acc \<and> map_of (foldl cluster_step [] its) (area_id a) = Some acc"
proof -
  from assms obtain kv where kv: "kv \<in> set (foldl cluster_step [] its)" "a = finalize (snd kv)"
    unfolding cluster_set by auto
  have m: "map_of (foldl cluster_step [] its) (fst kv) = Some (snd kv)"
    by (rule cluster_fold_entry[OF kv(1)])
  from cluster_fold_area[OF m] have "acc_id (snd kv) = fst kv" by simp
  then have "area_id a = fst kv" using kv(2) by (simp add: finalize_def)
  with m kv(2) show ?thesis by auto
qed

lemma same_key_iff:
  "clusterKey (src i) = clusterKey (src j) \<longleftrightarrow>
     focusCategoryOf (src i) = focusCategoryOf (src j) \<and> featureAreaOf (src i) = featureAreaOf (src j)"
  by (simp add: clusterKey_def area_key_inj)

subsection \<open>The maps and the buckets of the comparison\<close>

text \<open>
  The map of a list of areas has distinct keys, the keys of the list, and each value is
  stored under its own key. Each bucket is the image of the entries of a map, filtered
  by the test of its branch.
\<close>

lemma area_map_snoc:
  "area_map (fas @ [a]) = AList.update (fa_key a) a (area_map fas)"
  by (simp add: area_map_def)

lemma area_map_distinct: "distinct (map fst (area_map fas))"
  by (induction fas rule: rev_induct) (simp_all add: area_map_snoc distinct_update, simp add: area_map_def)

lemma area_map_keys: "fst ` set (area_map fas) = fa_key ` set fas"
  by (induction fas rule: rev_induct) (simp_all add: area_map_snoc dom_update, simp add: area_map_def)

lemma area_map_lookup:
  "map_of (area_map fas) k = Some a \<Longrightarrow> fa_key a = k \<and> a \<in> set fas"
proof (induction fas arbitrary: a rule: rev_induct)
  case Nil
  then show ?case by (simp add: area_map_def)
next
  case (snoc x xs)
  then show ?case by (auto simp: area_map_snoc update_conv' split: if_splits)
qed

lemma area_map_entry:
  assumes "e \<in> set (area_map fas)"
  shows "map_of (area_map fas) (fst e) = Some (snd e) \<and> fa_key (snd e) = fst e"
proof -
  have "(fst e, snd e) \<in> set (area_map fas)" using assms by simp
  then have "map_of (area_map fas) (fst e) = Some (snd e)"
    by (simp only: map_of_eq_Some_iff[OF area_map_distinct])
  then show ?thesis using area_map_lookup by blast
qed

lemma area_map_unique:
  "distinct (map fa_key fas) \<Longrightarrow> a \<in> set fas \<Longrightarrow> map_of (area_map fas) (fa_key a) = Some a"
proof (induction fas rule: rev_induct)
  case Nil
  then show ?case by simp
next
  case (snoc x xs)
  show ?case
  proof (cases "a = x")
    case True
    then show ?thesis by (simp add: area_map_snoc update_conv')
  next
    case False
    then have ax: "a \<in> set xs" using snoc.prems(2) by simp
    have "fa_key x \<notin> fa_key ` set xs" using snoc.prems(1) by simp
    then have "fa_key a \<noteq> fa_key x" using ax by (metis imageI)
    moreover have "map_of (area_map xs) (fa_key a) = Some a"
      using snoc.IH ax snoc.prems(1) by simp
    ultimately show ?thesis by (simp add: area_map_snoc update_conv')
  qed
qed

lemma compare_fold_new:
  "map area (newIssues (foldl (compare_step pm) ch es)) =
     map area (newIssues ch) @ map snd (filter (\<lambda>e. map_of pm (fst e) = None) es)"
  by (induction es arbitrary: ch)
     (simp_all add: compare_step_def Let_def split: option.splits)

lemma compare_fold_improved:
  "map area (improvedIssues (foldl (compare_step pm) ch es)) =
     map area (improvedIssues ch) @
     map snd (filter (\<lambda>e. case map_of pm (fst e) of None \<Rightarrow> False
                           | Some p \<Rightarrow> is_improved (snd e) p) es)"
  by (induction es arbitrary: ch)
     (simp_all add: compare_step_def Let_def is_improved_def impact_delta_def split: option.splits)

lemma compare_fold_worsened:
  "map area (worsenedIssues (foldl (compare_step pm) ch es)) =
     map area (worsenedIssues ch) @
     map snd (filter (\<lambda>e. case map_of pm (fst e) of None \<Rightarrow> False
                           | Some p \<Rightarrow> \<not> is_improved (snd e) p \<and> is_worsened (snd e) p) es)"
  by (induction es arbitrary: ch)
     (simp_all add: compare_step_def Let_def is_improved_def is_worsened_def impact_delta_def split: option.splits)

lemma compare_fold_stable:
  "map area (stableIssues (foldl (compare_step pm) ch es)) =
     map area (stableIssues ch) @
     map snd (filter (\<lambda>e. case map_of pm (fst e) of None \<Rightarrow> False
                           | Some p \<Rightarrow> \<not> is_improved (snd e) p \<and> \<not> is_worsened (snd e) p) es)"
  by (induction es arbitrary: ch)
     (simp_all add: compare_step_def Let_def is_improved_def is_worsened_def impact_delta_def split: option.splits)

lemma compare_fold_resolved:
  "resolvedIssues (foldl (compare_step pm) ch es) = resolvedIssues ch"
  by (induction es arbitrary: ch)
     (simp_all add: compare_step_def Let_def split: option.splits)

lemma resolve_fold_resolved:
  "map area (resolvedIssues (foldl (resolve_step cm) ch es)) =
     map area (resolvedIssues ch) @ map snd (filter (\<lambda>e. map_of cm (fst e) = None) es)"
  by (induction es arbitrary: ch) (simp_all add: resolve_step_def Let_def)

lemma resolve_fold_others:
  "newIssues (foldl (resolve_step cm) ch es) = newIssues ch
   \<and> improvedIssues (foldl (resolve_step cm) ch es) = improvedIssues ch
   \<and> worsenedIssues (foldl (resolve_step cm) ch es) = worsenedIssues ch
   \<and> stableIssues (foldl (resolve_step cm) ch es) = stableIssues ch"
  by (induction es arbitrary: ch) (simp_all add: resolve_step_def Let_def)

lemma area_map_key_map:
  "map (\<lambda>e. fa_key (snd e)) (filter P (area_map fas)) = map fst (filter P (area_map fas))"
proof (rule map_cong[OF refl])
  fix e assume "e \<in> set (filter P (area_map fas))"
  then have "e \<in> set (area_map fas)" by simp
  from area_map_entry[OF this] show "fa_key (snd e) = fst e" by simp
qed

lemma issue_keys_area: "issue_keys xs = map fa_key (map area xs)"
  by (simp add: issue_keys_def)

lemma compare_areas_new:
  "issue_keys (newIssues (compare_areas cur prev)) =
     map fst (filter (\<lambda>e. map_of (area_map prev) (fst e) = None) (area_map cur))"
  unfolding issue_keys_area compare_areas_def Let_def
  by (simp add: resolve_fold_others compare_fold_new comp_def area_map_key_map)

lemma compare_areas_improved:
  "issue_keys (improvedIssues (compare_areas cur prev)) =
     map fst (filter (\<lambda>e. case map_of (area_map prev) (fst e) of None \<Rightarrow> False
                           | Some p \<Rightarrow> is_improved (snd e) p) (area_map cur))"
  unfolding issue_keys_area compare_areas_def Let_def
  by (simp add: resolve_fold_others compare_fold_improved comp_def area_map_key_map)

lemma compare_areas_worsened:
  "issue_keys (worsenedIssues (compare_areas cur prev)) =
     map fst (filter (\<lambda>e. case map_of (area_map prev) (fst e) of None \<Rightarrow> False
                           | Some p \<Rightarrow> \<not> is_improved (snd e) p \<and> is_worsened (snd e) p)
                (area_map cur))"
  unfolding issue_keys_area compare_areas_def Let_def
  by (simp add: resolve_fold_others compare_fold_worsened comp_def area_map_key_map)

lemma compare_areas_stable:
  "issue_keys (stableIssues (compare_areas cur prev)) =
     map fst (filter (\<lambda>e. case map_of (area_map prev) (fst e) of None \<Rightarrow> False
                           | Some p \<Rightarrow> \<not> is_improved (snd e) p \<and> \<not> is_worsened (snd e) p)
                (area_map cur))"
  unfolding issue_keys_area compare_areas_def Let_def
  by (simp add: resolve_fold_others compare_fold_stable comp_def area_map_key_map)

lemma compare_areas_resolved:
  "issue_keys (resolvedIssues (compare_areas cur prev)) =
     map fst (filter (\<lambda>e. map_of (area_map cur) (fst e) = None) (area_map prev))"
  unfolding issue_keys_area compare_areas_def Let_def
  by (simp add: resolve_fold_resolved compare_fold_resolved comp_def area_map_key_map)

lemma four_way_split:
  "mset (map fst (filter (\<lambda>e. map_of pm (fst e) = None) es))
   + mset (map fst (filter (\<lambda>e. case map_of pm (fst e) of None \<Rightarrow> False
                           | Some p \<Rightarrow> is_improved (snd e) p) es))
   + mset (map fst (filter (\<lambda>e. case map_of pm (fst e) of None \<Rightarrow> False
                           | Some p \<Rightarrow> \<not> is_improved (snd e) p \<and> is_worsened (snd e) p) es))
   + mset (map fst (filter (\<lambda>e. case map_of pm (fst e) of None \<Rightarrow> False
                           | Some p \<Rightarrow> \<not> is_improved (snd e) p \<and> \<not> is_worsened (snd e) p) es))
   = mset (map fst es)"
  by (induction es) (auto split: option.splits)

lemma keyed_filter_mem:
  assumes "map_of (area_map fas) k = Some c"
  shows "k \<in> set (map fst (filter P (area_map fas))) \<longleftrightarrow> P (k, c)"
proof
  assume "k \<in> set (map fst (filter P (area_map fas)))"
  then obtain e where e: "e \<in> set (area_map fas)" "P e" "fst e = k" by auto
  from area_map_entry[OF e(1)] e(3) assms have "snd e = c" by simp
  with e(2,3) show "P (k, c)" by (metis prod.collapse)
next
  assume p: "P (k, c)"
  have "(k, c) \<in> set (area_map fas)" using assms by (rule map_of_SomeD)
  with p show "k \<in> set (map fst (filter P (area_map fas)))" by force
qed

lemma compareSyntheses_changes:
  assumes "focusAreas cur = Some ca" "focusAreas prev = Some pa"
  shows "\<exists>r. compareSyntheses t (Some cur) (Some prev) = Inr r
           \<and> cmp_changes r = Some (compare_areas ca pa) \<and> \<not> isFirstRun r
           \<and> cmp_trends r = Some (calculateOverallTrends cur prev (compare_areas ca pa))"
  using assms by (simp add: compareSyntheses_def chain_def Let_def)

lemma bucket_counts:
  assumes "k \<in> fa_key ` set ca \<union> fa_key ` set pa"
  shows "count_list (issue_keys (newIssues (compare_areas ca pa))) k
       + count_list (issue_keys (improvedIssues (compare_areas ca pa))) k
       + count_list (issue_keys (worsenedIssues (compare_areas ca pa))) k
       + count_list (issue_keys (resolvedIssues (compare_areas ca pa))) k
       + count_list (issue_keys (stableIssues (compare_areas ca pa))) k = 1"
proof -
  let ?ch = "compare_areas ca pa"
  let ?cm = "area_map ca" and ?pm = "area_map pa"
  let ?res = "map fst (filter (\<lambda>e. map_of ?cm (fst e) = None) ?pm)"
  have four: "mset (issue_keys (newIssues ?ch)) + mset (issue_keys (improvedIssues ?ch))
      + mset (issue_keys (worsenedIssues ?ch)) + mset (issue_keys (stableIssues ?ch))
      = mset (map fst ?cm)"
    unfolding compare_areas_new compare_areas_improved compare_areas_worsened compare_areas_stable
    by (rule four_way_split)
  have "count (mset (issue_keys (newIssues ?ch)) + mset (issue_keys (improvedIssues ?ch))
      + mset (issue_keys (worsenedIssues ?ch)) + mset (issue_keys (stableIssues ?ch))) k
      = count (mset (map fst ?cm)) k" by (simp only: four)
  then have sum4: "count_list (issue_keys (newIssues ?ch)) k
       + count_list (issue_keys (improvedIssues ?ch)) k
       + count_list (issue_keys (worsenedIssues ?ch)) k
       + count_list (issue_keys (stableIssues ?ch)) k = count_list (map fst ?cm) k"
    by (simp only: count_union count_mset)
  have dc: "distinct (map fst ?cm)" by (rule area_map_distinct)
  have dr: "distinct ?res" using area_map_distinct[of pa] by (simp add: distinct_map_filter)
  have cc: "count_list (map fst ?cm) k = (if k \<in> fa_key ` set ca then 1 else 0)"
    using dc area_map_keys[of ca] by (simp add: distinct_count_atmost_1 flip: count_mset)
  have rr: "count_list ?res k = (if k \<in> set ?res then 1 else 0)"
    using dr by (simp add: distinct_count_atmost_1 flip: count_mset)
  have mem: "k \<in> set ?res \<longleftrightarrow> k \<in> fa_key ` set pa \<and> k \<notin> fa_key ` set ca"
  proof -
    have "k \<in> set ?res \<longleftrightarrow> k \<in> fst ` set ?pm \<and> map_of ?cm k = None" by force
    also have "\<dots> \<longleftrightarrow> k \<in> fa_key ` set pa \<and> k \<notin> fa_key ` set ca"
      by (simp add: map_of_eq_None_iff area_map_keys)
    finally show ?thesis .
  qed
  have "count_list (issue_keys (resolvedIssues ?ch)) k
        = (if k \<in> fa_key ` set pa \<and> k \<notin> fa_key ` set ca then 1 else 0)"
    unfolding compare_areas_resolved rr mem ..
  with sum4 cc assms show ?thesis by auto
qed

lemma classification_keys:
  assumes c: "map_of (area_map ca) k = Some c" and p: "map_of (area_map pa) k = Some p"
  shows "(k \<in> set (issue_keys (improvedIssues (compare_areas ca pa))) \<longleftrightarrow> is_improved c p)"
    and "(k \<in> set (issue_keys (worsenedIssues (compare_areas ca pa)))
           \<longleftrightarrow> \<not> is_improved c p \<and> is_worsened c p)"
    and "(k \<in> set (issue_keys (stableIssues (compare_areas ca pa)))
           \<longleftrightarrow> \<not> is_improved c p \<and> \<not> is_worsened c p)"
    and "k \<notin> set (issue_keys (newIssues (compare_areas ca pa)))"
    and "k \<notin> set (issue_keys (resolvedIssues (compare_areas ca pa)))"
proof -
  show "(k \<in> set (issue_keys (improvedIssues (compare_areas ca pa))) \<longleftrightarrow> is_improved c p)"
    unfolding compare_areas_improved keyed_filter_mem[OF c] using p by simp
  show "(k \<in> set (issue_keys (worsenedIssues (compare_areas ca pa)))
           \<longleftrightarrow> \<not> is_improved c p \<and> is_worsened c p)"
    unfolding compare_areas_worsened keyed_filter_mem[OF c] using p by simp
  show "(k \<in> set (issue_keys (stableIssues (compare_areas ca pa)))
           \<longleftrightarrow> \<not> is_improved c p \<and> \<not> is_worsened c p)"
    unfolding compare_areas_stable keyed_filter_mem[OF c] using p by simp
  show "k \<notin> set (issue_keys (newIssues (compare_areas ca pa)))"
    unfolding compare_areas_new keyed_filter_mem[OF c] using p by simp
  show "k \<notin> set (issue_keys (resolvedIssues (compare_areas ca pa)))"
    unfolding compare_areas_resolved keyed_filter_mem[OF p] using c by simp
qed

subsection \<open>Trend tags\<close>

text \<open>
  The tag attached by \<^verbatim>\<open>attachTrendData\<close> depends on the buckets that hold the key;
  with unique keys the \<^verbatim>\<open>find\<close> of \<^verbatim>\<open>calculateTrend\<close> is the lookup in the map.
\<close>

lemma find_issue_None: "find_issue k xs = None \<longleftrightarrow> k \<notin> set (issue_keys xs)"
  by (auto simp: find_issue_def issue_keys_def find_None_iff)

lemma attach_one_trend:
  "trend (attach_one ch fa) =
     (if fa_key fa \<in> set (issue_keys (newIssues ch)) then ''new''
      else if fa_key fa \<in> set (issue_keys (improvedIssues ch)) then ''down''
      else if fa_key fa \<in> set (issue_keys (worsenedIssues ch)) then ''up''
      else ''stable'')"
proof -
  have n: "\<And>xs. fa_key fa \<in> set (issue_keys xs) \<longleftrightarrow> find_issue (fa_key fa) xs \<noteq> None"
    by (simp add: find_issue_None)
  show ?thesis unfolding n attach_one_def Let_def by (simp split: option.splits)
qed

lemma find_previous_map:
  assumes d: "distinct (map fa_key pas)"
  shows "find_previous cl pas = map_of (area_map pas) (area_key (area_category cl) (area_title cl))"
proof -
  let ?k = "area_key (area_category cl) (area_title cl)"
  let ?P = "\<lambda>fa. fa_title fa = area_title cl \<and> fa_category fa = area_category cl"
  have P: "\<And>fa. ?P fa \<longleftrightarrow> fa_key fa = ?k" by (auto simp: fa_key_def area_key_inj)
  show ?thesis
  proof (cases "map_of (area_map pas) ?k")
    case None
    then have "?k \<notin> fa_key ` set pas" by (simp add: map_of_eq_None_iff area_map_keys)
    then have "\<not> (\<exists>x \<in> set pas. ?P x)" unfolding P by (auto simp: image_iff)
    then have "List.find ?P pas = None" unfolding find_None_iff by blast
    with None show ?thesis by (simp add: find_previous_def)
  next
    case (Some q)
    from area_map_lookup[OF Some] have q: "fa_key q = ?k" "q \<in> set pas" by simp_all
    then have "\<exists>x \<in> set pas. ?P x" unfolding P by (auto simp: image_iff)
    then have "List.find ?P pas \<noteq> None" unfolding find_None_iff by blast
    then obtain q' where q': "List.find ?P pas = Some q'" by blast
    then have "q' \<in> set pas" "?P q'" by (auto simp: find_Some_iff)
    then have "fa_key q' = fa_key q" "q' \<in> set pas" using q(1) unfolding P by simp_all
    with d q(2) have "q' = q" by (metis distinct_map inj_on_def)
    with q' Some show ?thesis by (simp add: find_previous_def)
  qed
qed

lemma trend_agreement:
  assumes d: "distinct (map fa_key pas)" and dc: "distinct (map fa_key cur)" and a: "a \<in> set cur"
    and same: "fa_title a = area_title cl" "fa_category a = area_category cl"
              "fa_frequency a = frequency cl"
    and imp: "\<forall>q \<in> set pas. fa_key q = fa_key a \<longrightarrow>
                \<bar>impact_delta a q\<bar> \<le> 1"
    and p: "focusAreas p = Some pas"
  shows "trend (attach_one (compare_areas cur pas) a) = calculateTrend cl (Some p)"
proof -
  let ?k = "fa_key a"
  have k: "?k = area_key (area_category cl) (area_title cl)" using same by (simp add: fa_key_def)
  have c: "map_of (area_map cur) ?k = Some a" by (rule area_map_unique[OF dc a])
  have fp: "find_previous cl pas = map_of (area_map pas) ?k"
    unfolding k by (rule find_previous_map[OF d])
  show ?thesis
  proof (cases "map_of (area_map pas) ?k")
    case None
    have "?k \<in> set (issue_keys (newIssues (compare_areas cur pas)))"
      unfolding compare_areas_new keyed_filter_mem[OF c] using None by simp
    then have "trend (attach_one (compare_areas cur pas) a) = ''new''"
      by (simp add: attach_one_trend)
    moreover have "calculateTrend cl (Some p) = ''new''"
      using p fp None by (simp add: calculateTrend_def chain_def)
    ultimately show ?thesis by simp
  next
    case (Some q)
    from area_map_lookup[OF Some] have "fa_key q = ?k" "q \<in> set pas" by simp_all
    with imp have i1: "\<bar>impact_delta a q\<bar> \<le> 1" by blast
    have im: "is_improved a q \<longleftrightarrow> frequency cl - fa_frequency q < - 2"
      using i1 same(3) by (auto simp: is_improved_def)
    have wo: "is_worsened a q \<longleftrightarrow> frequency cl - fa_frequency q > 2"
      using i1 same(3) by (auto simp: is_worsened_def)
    note ck = classification_keys[OF c Some]
    have "trend (attach_one (compare_areas cur pas) a) =
            (if frequency cl - fa_frequency q < - 2 then ''down''
             else if frequency cl - fa_frequency q > 2 then ''up'' else ''stable'')"
      unfolding attach_one_trend using ck im wo by simp
    moreover have "calculateTrend cl (Some p) =
            (if frequency cl - fa_frequency q > 2 then ''up''
             else if frequency cl - fa_frequency q < - 2 then ''down'' else ''stable'')"
      using p fp Some by (simp add: calculateTrend_def chain_def Let_def)
    ultimately show ?thesis by simp
  qed
qed

subsection \<open>Members of a focus area\<close>

lemma cluster_covers:
  assumes "i \<in> set its"
  shows "\<exists>a \<in> set (clusterIntoFocusAreas its). area_id a = clusterKey (src i) \<and> i \<in> set (items a)"
proof -
  let ?A = "foldl cluster_step [] its"
  have "clusterKey (src i) \<in> fst ` set ?A" unfolding cluster_fold_keys using assms by blast
  then obtain kv where kv: "kv \<in> set ?A" "fst kv = clusterKey (src i)" by auto
  from cluster_fold_area[OF cluster_fold_entry[OF kv(1)]] kv(2)
  have f: "acc_id (snd kv) = clusterKey (src i)"
    "acc_items (snd kv) = filter (\<lambda>x. clusterKey (src x) = clusterKey (src i)) its" by simp_all
  have "finalize (snd kv) \<in> set (clusterIntoFocusAreas its)" unfolding cluster_set using kv(1) by blast
  moreover have "area_id (finalize (snd kv)) = clusterKey (src i)" using f(1) by (simp add: finalize_def)
  moreover have "i \<in> set (items (finalize (snd kv)))" using assms f(2) by (simp add: finalize_def)
  ultimately show ?thesis by blast
qed

lemma cluster_area_facts:
  assumes "a \<in> set (clusterIntoFocusAreas its)"
  shows "items a = filter (\<lambda>i. focusCategoryOf (src i) = area_category a
                                \<and> featureAreaOf (src i) = area_title a) its
        \<and> frequency a = int (length (items a))
        \<and> avgImpact a = fdiv (foldl fadd 0 (map impact_of (items a))) (real (length (items a)))
        \<and> quotes a = concat (map item_quotes (items a))
        \<and> topQuote a = (case quotes a of [] \<Rightarrow> [] | q # _ \<Rightarrow> q)
        \<and> (\<exists>i rest. items a = i # rest
              \<and> area_stakes a = (case impactData i of
                                   None \<Rightarrow> \<lparr>stakes_type = ''neutral'', message = []\<rparr>
                                 | Some d \<Rightarrow> stakes d)
              \<and> scoreRationale a = (case impactData i of None \<Rightarrow> [] | Some d \<Rightarrow> rationale d))"
proof -
  let ?A = "foldl cluster_step [] its"
  from assms obtain acc where acc: "a = finalize acc" "map_of ?A (area_id a) = Some acc"
    using cluster_area by blast
  from cluster_fold_area[OF acc(2)] obtain i rest where
    f: "acc_id acc = area_id a"
       "acc_items acc = filter (\<lambda>i. clusterKey (src i) = area_id a) its"
       "acc_items acc = i # rest" "acc_title acc = featureAreaOf (src i)"
       "acc_category acc = focusCategoryOf (src i)"
       "acc_totalScore acc = foldl fadd 0 (map impact_of (acc_items acc))"
       "acc_quotes acc = concat (map item_quotes (acc_items acc))" by blast
  have "i \<in> set (acc_items acc)" using f(3) by simp
  then have ki: "clusterKey (src i) = area_id a" unfolding f(2) by simp
  have fin: "items a = acc_items acc" "area_category a = acc_category acc"
    "area_title a = acc_title acc" "quotes a = acc_quotes acc"
    "frequency a = int (length (acc_items acc))"
    "avgImpact a = (if length (acc_items acc) > 0
                 then fdiv (acc_totalScore acc) (real (length (acc_items acc))) else 0)"
    "topQuote a = (case acc_quotes acc of [] \<Rightarrow> [] | q # _ \<Rightarrow> or_str (Some q) [])"
    by (simp_all add: acc(1) finalize_def)
  have fin2: "area_stakes a = (case acc_items acc of
         [] \<Rightarrow> \<lparr>stakes_type = ''neutral'', message = []\<rparr>
       | i # _ \<Rightarrow> (case impactData i of
                     None \<Rightarrow> \<lparr>stakes_type = ''neutral'', message = []\<rparr>
                   | Some d \<Rightarrow> stakes d))"
    "scoreRationale a = (case acc_items acc of
         [] \<Rightarrow> []
       | i # _ \<Rightarrow> or_str (chain (impactData i) (\<lambda>d. Some (rationale d))) [])"
    by (simp_all add: acc(1) finalize_def)
  have c1: "items a = filter (\<lambda>x. focusCategoryOf (src x) = area_category a
                              \<and> featureAreaOf (src x) = area_title a) its"
    unfolding fin f(2) f(4) f(5) ki[symmetric] by (simp add: same_key_iff)
  have c2: "frequency a = int (length (items a))" unfolding fin by simp
  have c3: "avgImpact a = fdiv (foldl fadd 0 (map impact_of (items a))) (real (length (items a)))"
    unfolding fin using f(3,6) by simp
  have c4: "quotes a = concat (map item_quotes (items a))" unfolding fin using f(7) by simp
  have ne: "\<forall>q \<in> set (acc_quotes acc). q \<noteq> []"
    unfolding f(7) by (auto simp: item_quotes_def split: option.splits if_splits)
  have c5: "topQuote a = (case quotes a of [] \<Rightarrow> [] | q # _ \<Rightarrow> q)"
    unfolding fin using ne by (cases "acc_quotes acc") (simp_all add: or_str_def)
  have c6: "items a = i # rest
            \<and> area_stakes a = (case impactData i of
                                 None \<Rightarrow> \<lparr>stakes_type = ''neutral'', message = []\<rparr>
                               | Some d \<Rightarrow> stakes d)
            \<and> scoreRationale a = (case impactData i of None \<Rightarrow> [] | Some d \<Rightarrow> rationale d)"
    unfolding fin fin2 f(3) by (simp add: or_str_def chain_def split: option.splits)
  from c1 c2 c3 c4 c5 c6 show ?thesis by blast
qed

subsection \<open>The concrete inputs\<close>

text \<open>
  The values of the scorer, the filter and the clusterer on the concrete inputs: the
  scored mock item is what the filter returns for the mock item, and the mock cluster
  is the focus area the clusterer forms of it.
\<close>

lemma signal_mock: "calculateSignalScore mock_item = 1069604911500493 / 1125899906842624"
  by (simp add: calculateSignalScore_def mock_item_def Let_def or_int_def str_length_def num_def)
     (simp add: f_eval)

lemma signal_rant: "calculateSignalScore rant_item = 900719925474099 / 9007199254740992"
  by (simp add: calculateSignalScore_def rant_item_def Let_def or_int_def str_length_def num_def)
     (simp add: f_eval)

lemma signal_minor: "calculateSignalScore minor_item = 7205759403792793 / 9007199254740992"
  by (simp add: calculateSignalScore_def minor_item_def Let_def or_int_def str_length_def num_def)
     (simp add: f_eval)

lemma signal_borderline:
  "calculateSignalScore borderline_item = 9007199254740991 / 18014398509481984"
  by (simp add: calculateSignalScore_def borderline_item_def Let_def or_int_def str_length_def num_def)
     (simp add: f_eval)

lemma fl_half: "fl (1 / 2) = 1 / 2"
  by (simp add: fl_eval)

lemma impact_ignores_total: "calculateImpactScore now i n = calculateImpactScore now i m"
  by (simp add: calculateImpactScore_def)

lemma impact_mock: "iscore (calculateImpactScore mock_now mock_item n) = fl 9.7"
  by (simp add: calculateImpactScore_def mock_item_def mock_now_def or_int_def or_num_def
        chain_def js_round_def Let_def num_def)
     (simp add: f_eval)

lemma impact_minor: "iscore (calculateImpactScore mock_now minor_item n) = fl 1.4"
  by (simp add: calculateImpactScore_def minor_item_def mock_now_def or_int_def or_num_def
        chain_def js_round_def Let_def num_def)
     (simp add: f_eval)

lemma impact_mock_data:
  "calculateImpactScore mock_now mock_item n =
     \<lparr>iscore = fl 9.7, maxScore = 10,
      breakdown = \<lparr>reach = \<lparr>bvalue = 10, weight = fl 0.4\<rparr>,
                   sentiment = \<lparr>bvalue = 9, weight = fl 0.3\<rparr>,
                   velocity = \<lparr>bvalue = 10, weight = fl 0.3\<rparr>\<rparr>,
      rationale = ''Score reflects high visibility (234 upvotes), strong sentiment intensity, rapid engagement growth.'',
      stakes = \<lparr>stakes_type = ''risk'',
        message = ''Risk if ignored: Potential churn of Power Users, negative word-of-mouth amplification.''\<rparr>\<rparr>"
  by (simp add: calculateImpactScore_def mock_item_def mock_now_def or_int_def or_num_def
        or_str_def chain_def js_round_def Let_def num_def generateScoreRationale_def
        generateStakes_def show_int_def show_nat.simps)
     (simp add: f_eval)

lemma mock_fields:
  "problemMetadata mock_item = Some \<lparr>featureArea = Some ''Database Performance'',
                              impactScore = Some 9,
                              userSegmentGuess = Some ''Power Users''\<rparr>"
  "delightMetadata mock_item = None"
  "summary mock_item = Some \<lparr>keyQuote = Some ''Database freezes with large tables''\<rparr>"
  "category mock_item = ''Usability Friction''"
  "itype mock_item = ''Constructive''"
  by (simp_all add: mock_item_def)

lemma filter_mock:
  "filterSignalFromNoise mock_now [rant_item, mock_item] =
     \<lparr>highSignal = [mock_scored],
      noise = [\<lparr>src = rant_item, signalScore = calculateSignalScore rant_item,
                impactData = None\<rparr>]\<rparr>"
proof -
  have i: "calculateImpactScore mock_now mock_item (length [rant_item, mock_item])
           = calculateImpactScore mock_now mock_item 1"
    by (rule impact_ignores_total)
  have s: "calculateSignalScore mock_item \<ge> fl 0.5" "\<not> calculateSignalScore rant_item \<ge> fl 0.5"
    by (simp_all add: signal_mock signal_rant fl_half)
  show ?thesis
    unfolding filterSignalFromNoise_def Let_def foldl.simps filter_step_def i
    using s by (simp add: sort_desc_def mock_scored_def)
qed

lemma signal_praise:
  "calculateSignalScore praise_request_item = 1463669878895411 / 2251799813685248"
  by (simp add: calculateSignalScore_def praise_request_item_def Let_def or_int_def
        str_length_def num_def)
     (simp add: f_eval)

lemma filter_praise:
  "filterSignalFromNoise mock_now [praise_request_item] =
     \<lparr>highSignal = [praise_scored], noise = []\<rparr>"
proof -
  have i: "calculateImpactScore mock_now praise_request_item (length [praise_request_item])
           = calculateImpactScore mock_now praise_request_item 1"
    by (rule impact_ignores_total)
  have s: "calculateSignalScore praise_request_item \<ge> fl 0.5"
    by (simp add: signal_praise fl_half)
  show ?thesis
    unfolding filterSignalFromNoise_def Let_def foldl.simps filter_step_def i
    using s by (simp add: sort_desc_def praise_scored_def)
qed

lemma fl_mock_score: "fl 9.7 = 2730307274093363 / 281474976710656"
  by (simp add: fl_eval)

lemma fl_minor_score: "fl 1.4 = 3152519739159347 / 2251799813685248"
  by (simp add: fl_eval)

lemma cluster_mock: "clusterIntoFocusAreas [mock_scored] = [mock_cluster]"
proof -
  have t: "fadd 0 (fl 9.7) = fl 9.7" "fdiv (fl 9.7) 1 = fl 9.7" "fl 9.7 \<noteq> 0"
    unfolding fl_mock_score by (simp_all add: f_eval)
  show ?thesis
    by (simp add: clusterIntoFocusAreas_def cluster_step_def Let_def sort_desc_def finalize_def
        mock_cluster_def featureAreaOf_def focusCategoryOf_def area_key_def or_str_def chain_def
        impact_of_def or_num_def set_add_def mock_scored_def impact_mock_data mock_fields t)
qed

lemma enhance_member:
  "e \<in> set (enhanceFocusAreas prev llms cls) \<Longrightarrow> \<exists>cl l. e = enhance prev cl l"
  by (auto simp: enhanceFocusAreas_def)

lemma enhance_fields:
  "base (enhance prev cl l) = cl" "llm (enhance prev cl l) = l"
  "e_impactScore (enhance prev cl l) = avgImpact cl"
  "e_trend (enhance None cl l) = ''new''"
  "e_trend (enhance (Some p) cl l) = calculateTrend cl (Some p)"
  by (simp_all add: enhance_def)

lemma engine_tags_eq:
  assumes "focusAreas cur = Some ca" "focusAreas p = Some pas"
  shows "engine_tags t cur p = Inr (map (\<lambda>a. trend (attach_one (compare_areas ca pas) a)) ca)"
proof -
  from compareSyntheses_changes[OF assms, of t] obtain r where
    r: "compareSyntheses t (Some cur) (Some p) = Inr r"
       "cmp_changes r = Some (compare_areas ca pas)" "\<not> isFirstRun r" by blast
  then show ?thesis using assms(1) by (simp add: engine_tags_def attachTrendData_def comp_def)
qed

lemma enhance_mock:
  "enhanceFocusAreas prev [] [mock_cluster] = [enhance prev mock_cluster None]"
  by (simp add: enhanceFocusAreas_def)

lemma mock_cluster_fields:
  "area_title mock_cluster = ''Database Performance''"
  "area_category mock_cluster = usability_friction"
  "frequency mock_cluster = 1" "avgImpact mock_cluster = fl 9.7"
  by (simp_all add: mock_cluster_def)

lemma mock_trend:
  "calculateTrend mock_cluster (Some (snapshot_of [snapshot_area f s])) =
     (if 1 - f > 2 then ''up'' else if 1 - f < - 2 then ''down'' else ''stable'')"
  by (simp add: calculateTrend_def chain_def snapshot_of_def find_previous_def snapshot_area_def
        mock_cluster_fields Let_def)

lemma mock_report:
  "report_area (enhance prev mock_cluster None) =
     \<lparr>fa_title = ''Database Performance'', fa_category = usability_friction,
      fa_frequency = 1, fa_impactScore = Some (fl 9.7), fa_severityLabel = None\<rparr>"
  by (simp add: report_area_def enhance_def mock_cluster_fields)

lemma sync_key: "fa_key (sync_area f) = ''bug:Sync''"
  by (simp add: fa_key_def sync_area_def area_key_def)

lemma highSignal_has_impactData:
  "x \<in> set (highSignal (filterSignalFromNoise now xs)) \<Longrightarrow> impactData x \<noteq> None"
  unfolding highSignal_filter sort_desc_set by auto

section \<open>The claims\<close>

subsection \<open>C1: the category of a focus area\<close>

text \<open>
  C1, as the code has it. Every item lands in a focus area, and the category of that area
  is decided by the classification category first and by the type last: Feature Request
  gives \<open>feature_request\<close> and Bug gives \<open>bug\<close> whatever the type of the item; an
  item of any other category gives \<open>praise\<close> when its type is Praise and
  \<open>usability_friction\<close> otherwise.
\<close>

theorem cluster_category_order:
  "(\<forall>i \<in> set its. \<exists>a \<in> set (clusterIntoFocusAreas its). i \<in> set (items a))
   \<and> (\<forall>a \<in> set (clusterIntoFocusAreas its). \<forall>i \<in> set (items a).
         area_category a =
           (if category (src i) = ''Feature Request'' then feature_request
            else if category (src i) = ''Bug'' then bug
            else if itype (src i) = ''Praise'' then praise
            else usability_friction))"
proof (intro conjI ballI)
  fix i assume "i \<in> set its"
  from cluster_covers[OF this] show "\<exists>a \<in> set (clusterIntoFocusAreas its). i \<in> set (items a)"
    by blast
next
  fix a i assume a: "a \<in> set (clusterIntoFocusAreas its)" and i: "i \<in> set (items a)"
  from cluster_area_facts[OF a]
  have "items a = filter (\<lambda>i. focusCategoryOf (src i) = area_category a
                              \<and> featureAreaOf (src i) = area_title a) its" by blast
  with i have "focusCategoryOf (src i) = area_category a" by simp
  then show "area_category a =
           (if category (src i) = ''Feature Request'' then feature_request
            else if category (src i) = ''Bug'' then bug
            else if itype (src i) = ''Praise'' then praise
            else usability_friction)"
    by (simp add: focusCategoryOf_def)
qed

text \<open>
  The theorem at the Praise item whose category is Feature Request: its area is a
  \<open>feature_request\<close> area.
\<close>

theorem cluster_category_order_witness:
  "\<exists>a \<in> set (clusterIntoFocusAreas [praise_scored]).
      praise_scored \<in> set (items a) \<and> area_category a = feature_request"
proof -
  have c: "category (src praise_scored) = ''Feature Request''"
    by (simp add: praise_scored_def praise_request_item_def)
  from cluster_category_order[of "[praise_scored]"]
  obtain a where a: "a \<in> set (clusterIntoFocusAreas [praise_scored])" "praise_scored \<in> set (items a)"
    by auto
  have "area_category a =
           (if category (src praise_scored) = ''Feature Request'' then feature_request
            else if category (src praise_scored) = ''Bug'' then bug
            else if itype (src praise_scored) = ''Praise'' then praise
            else usability_friction)"
    using cluster_category_order[of "[praise_scored]"] a by blast
  then have "area_category a = feature_request" unfolding c by simp
  with a show ?thesis by blast
qed

text \<open>
  C1 as stated fails: an item of type Praise with the classification category Feature
  Request is not assigned \<open>praise\<close>.
\<close>

theorem praise_category_counterexample:
  "itype praise_request_item = ''Praise''
   \<and> focusCategoryOf praise_request_item = feature_request
   \<and> map area_category (clusterIntoFocusAreas [praise_scored]) = [feature_request]"
proof -
  have f: "itype praise_request_item = ''Praise''"
    "category praise_request_item = ''Feature Request''"
    by (simp_all add: praise_request_item_def)
  have c: "focusCategoryOf praise_request_item = feature_request"
    by (simp add: focusCategoryOf_def f)
  have "\<exists>k a. cluster_step [] praise_scored = [(k, a)] \<and> acc_category a = feature_request"
    by (simp add: cluster_step_def Let_def praise_scored_def c split: option.splits)
  then obtain k a where ka: "cluster_step [] praise_scored = [(k, a)]"
    "acc_category a = feature_request" by blast
  have "clusterIntoFocusAreas [praise_scored] = [finalize a]"
    by (simp add: clusterIntoFocusAreas_def sort_desc_def ka(1))
  then have "map area_category (clusterIntoFocusAreas [praise_scored]) = [feature_request]"
    using ka(2) by (simp add: finalize_def)
  with f c show ?thesis by simp
qed

subsection \<open>C2: the trend tag of the orchestrator\<close>

text \<open>
  C2, as the code has it. Without a previous snapshot every focus area is tagged
  \<open>new\<close>. With one, the tag is decided by the frequency delta alone, against the first
  area of the snapshot with the same title and category: \<open>new\<close> when there is none,
  \<open>up\<close> above 2, \<open>down\<close> below -2, \<open>stable\<close> otherwise, whatever the impact scores.
  The tags are those of the differential engine (new, improved as \<open>down\<close>, worsened as
  \<open>up\<close>, stable) when the keys of the snapshot and of the report are unique, the narrative
  areas leave title, category and frequency as computed, and every impact delta, the
  difference of doubles the engine computes, lies within [-1, 1].
\<close>

theorem orchestrator_trend_tags:
  "(\<forall>e \<in> set (enhanceFocusAreas None llms cls). e_trend e = ''new'')
   \<and> (\<forall>e \<in> set (enhanceFocusAreas (Some p) llms cls).
        focusAreas p = Some pas \<longrightarrow>
        e_trend e = (case find_previous (base e) pas of
                       None \<Rightarrow> ''new''
                     | Some q \<Rightarrow>
                         if frequency (base e) - fa_frequency q > 2 then ''up''
                         else if frequency (base e) - fa_frequency q < - 2 then ''down''
                         else ''stable''))
   \<and> (focusAreas p = Some pas \<and> distinct (map fa_key pas)
      \<and> es = enhanceFocusAreas (Some p) llms cls
      \<and> focusAreas cur = Some (map report_area es)
      \<and> distinct (map fa_key (map report_area es))
      \<and> (\<forall>e \<in> set es. fa_title (report_area e) = area_title (base e)
                      \<and> fa_category (report_area e) = area_category (base e)
                      \<and> fa_frequency (report_area e) = frequency (base e))
      \<and> (\<forall>e \<in> set es. \<forall>q \<in> set pas. fa_key q = fa_key (report_area e) \<longrightarrow>
             \<bar>impact_delta (report_area e) q\<bar> \<le> 1)
      \<longrightarrow> engine_tags t cur p = Inr (map e_trend es))"
proof (intro conjI ballI impI)
  fix e assume "e \<in> set (enhanceFocusAreas None llms cls)"
  from enhance_member[OF this] show "e_trend e = ''new''" by (auto simp: enhance_fields)
next
  fix e assume e: "e \<in> set (enhanceFocusAreas (Some p) llms cls)" and p: "focusAreas p = Some pas"
  from enhance_member[OF e] obtain cl l where "e = enhance (Some p) cl l" by blast
  then show "e_trend e = (case find_previous (base e) pas of
                       None \<Rightarrow> ''new''
                     | Some q \<Rightarrow>
                         if frequency (base e) - fa_frequency q > 2 then ''up''
                         else if frequency (base e) - fa_frequency q < - 2 then ''down''
                         else ''stable'')"
    using p by (simp add: enhance_fields calculateTrend_def chain_def Let_def split: option.splits)
next
  assume h: "focusAreas p = Some pas \<and> distinct (map fa_key pas)
      \<and> es = enhanceFocusAreas (Some p) llms cls
      \<and> focusAreas cur = Some (map report_area es)
      \<and> distinct (map fa_key (map report_area es))
      \<and> (\<forall>e \<in> set es. fa_title (report_area e) = area_title (base e)
                      \<and> fa_category (report_area e) = area_category (base e)
                      \<and> fa_frequency (report_area e) = frequency (base e))
      \<and> (\<forall>e \<in> set es. \<forall>q \<in> set pas. fa_key q = fa_key (report_area e) \<longrightarrow>
             \<bar>impact_delta (report_area e) q\<bar> \<le> 1)"
  let ?rep = "map report_area es"
  have tags: "engine_tags t cur p = Inr (map (\<lambda>a. trend (attach_one (compare_areas ?rep pas) a)) ?rep)"
    using h by (intro engine_tags_eq) simp_all
  have "\<And>e. e \<in> set es \<Longrightarrow> trend (attach_one (compare_areas ?rep pas) (report_area e)) = e_trend e"
  proof -
    fix e assume e: "e \<in> set es"
    then obtain cl l where el: "e = enhance (Some p) cl l" using h enhance_member by blast
    have b: "base e = cl" and tr: "e_trend e = calculateTrend cl (Some p)"
      unfolding el by (simp_all add: enhance_fields)
    have imp: "\<forall>q \<in> set pas. fa_key q = fa_key (report_area e) \<longrightarrow>
        \<bar>impact_delta (report_area e) q\<bar> \<le> 1"
      using h e by blast
    have "trend (attach_one (compare_areas ?rep pas) (report_area e)) = calculateTrend cl (Some p)"
    proof (rule trend_agreement[OF _ _ _ _ _ _ imp])
      show "distinct (map fa_key pas)" using h by blast
      show "distinct (map fa_key ?rep)" using h by blast
      show "report_area e \<in> set ?rep" using e by simp
      show "fa_title (report_area e) = area_title cl" using h e b by auto
      show "fa_category (report_area e) = area_category cl" using h e b by auto
      show "fa_frequency (report_area e) = frequency cl" using h e b by auto
      show "focusAreas p = Some pas" using h by blast
    qed
    with tr show "trend (attach_one (compare_areas ?rep pas) (report_area e)) = e_trend e" by simp
  qed
  then have "map (\<lambda>a. trend (attach_one (compare_areas ?rep pas) a)) ?rep = map e_trend es"
    by (simp add: comp_def)
  with tags show "engine_tags t cur p = Inr (map e_trend es)" by simp
qed

text \<open>
  The theorem at the focus area of the mock item, against a snapshot in which the area
  had frequency 5 and impact score 9 (the impact delta is about 0.7): both tags are
  \<open>down\<close>.
\<close>

theorem orchestrator_trend_tags_witness:
  "map e_trend (enhanceFocusAreas (Some (snapshot_of [snapshot_area 5 9])) [] [mock_cluster])
     = [''down'']
   \<and> engine_tags ''2025-02-01T00:00:00.000Z''
        (snapshot_of (map report_area
           (enhanceFocusAreas (Some (snapshot_of [snapshot_area 5 9])) [] [mock_cluster])))
        (snapshot_of [snapshot_area 5 9])
     = Inr [''down'']"
proof -
  let ?p = "snapshot_of [snapshot_area 5 9]"
  let ?es = "enhanceFocusAreas (Some ?p) [] [mock_cluster]"
  have tr: "map e_trend ?es = [''down'']"
    by (simp add: enhance_mock enhance_fields mock_trend)
  have h: "focusAreas ?p = Some [snapshot_area 5 9] \<and> distinct (map fa_key [snapshot_area 5 9])
      \<and> ?es = enhanceFocusAreas (Some ?p) [] [mock_cluster]
      \<and> focusAreas (snapshot_of (map report_area ?es)) = Some (map report_area ?es)
      \<and> distinct (map fa_key (map report_area ?es))
      \<and> (\<forall>e \<in> set ?es. fa_title (report_area e) = area_title (base e)
                      \<and> fa_category (report_area e) = area_category (base e)
                      \<and> fa_frequency (report_area e) = frequency (base e))
      \<and> (\<forall>e \<in> set ?es. \<forall>q \<in> set [snapshot_area 5 9]. fa_key q = fa_key (report_area e) \<longrightarrow>
             \<bar>impact_delta (report_area e) q\<bar> \<le> 1)"
    by (simp add: snapshot_of_def enhance_mock mock_report enhance_fields mock_cluster_fields
          snapshot_area_def impact_delta_def or_num_def num_def)
       (simp add: f_eval)
  from orchestrator_trend_tags[of "[]" "[mock_cluster]" ?p "[snapshot_area 5 9]" ?es
      "snapshot_of (map report_area ?es)" "''2025-02-01T00:00:00.000Z''"] h
  have "engine_tags ''2025-02-01T00:00:00.000Z'' (snapshot_of (map report_area ?es)) ?p
          = Inr (map e_trend ?es)" by blast
  with tr show ?thesis by simp
qed

text \<open>
  C2 as stated fails: against a snapshot in which the area had the same frequency and
  the impact score 5, the impact delta is about 4.7; the engine classifies the area as
  worsened (\<open>up\<close>), the orchestrator tags it \<open>stable\<close>.
\<close>

theorem trend_tag_counterexample:
  "map e_trend (enhanceFocusAreas (Some (snapshot_of [snapshot_area 1 5])) [] [mock_cluster])
     = [''stable'']
   \<and> engine_tags ''2025-02-01T00:00:00.000Z''
        (snapshot_of (map report_area
           (enhanceFocusAreas (Some (snapshot_of [snapshot_area 1 5])) [] [mock_cluster])))
        (snapshot_of [snapshot_area 1 5])
     = Inr [''up'']"
proof -
  let ?a = "\<lparr>fa_title = ''Database Performance'', fa_category = usability_friction,
      fa_frequency = 1, fa_impactScore = Some (fl 9.7), fa_severityLabel = None\<rparr>"
  have k: "fa_key ?a = fa_key (snapshot_area 1 5)" by (simp add: fa_key_def snapshot_area_def)
  have c: "map_of (area_map [?a]) (fa_key ?a) = Some ?a" by (simp add: area_map_def)
  have q: "map_of (area_map [snapshot_area 1 5]) (fa_key ?a) = Some (snapshot_area 1 5)"
    unfolding k by (simp add: area_map_def)
  have w: "\<not> is_improved ?a (snapshot_area 1 5) \<and> is_worsened ?a (snapshot_area 1 5)"
    by (simp add: is_improved_def is_worsened_def)
       (simp add: impact_delta_def snapshot_area_def or_num_def num_def f_eval)
  have "trend (attach_one (compare_areas [?a] [snapshot_area 1 5]) ?a) = ''up''"
    unfolding attach_one_trend using classification_keys[OF c q] w by simp
  then have "engine_tags ''2025-02-01T00:00:00.000Z'' (snapshot_of [?a])
        (snapshot_of [snapshot_area 1 5]) = Inr [''up'']"
    by (simp add: engine_tags_eq[of _ "[?a]" _ "[snapshot_area 1 5]"] snapshot_of_def)
  moreover have "map e_trend (enhanceFocusAreas (Some (snapshot_of [snapshot_area 1 5])) [] [mock_cluster])
     = [''stable'']"
    by (simp add: enhance_mock enhance_fields mock_trend)
  ultimately show ?thesis by (simp add: enhance_mock mock_report)
qed

subsection \<open>C3: impact data in the two buckets\<close>

text \<open>
  C3, as the code has it. Every element of \<open>highSignal\<close> is an input item carrying the
  impact data computed for it; every element of \<open>noise\<close> is an input item carrying its
  signal score and no impact data.
\<close>

theorem signal_filter_impact_data:
  "(\<forall>x \<in> set (highSignal (filterSignalFromNoise now xs)).
       src x \<in> set xs \<and> impactData x = Some (calculateImpactScore now (src x) (length xs)))
   \<and> (\<forall>x \<in> set (noise (filterSignalFromNoise now xs)).
       src x \<in> set xs \<and> impactData x = None \<and> signalScore x = calculateSignalScore (src x))"
  unfolding highSignal_filter noise_filter sort_desc_set by auto

text \<open>
  The theorem at the list of the rant and the mock item: one element in each bucket.
\<close>

theorem signal_filter_impact_data_witness:
  "(\<exists>x \<in> set (highSignal (filterSignalFromNoise mock_now [rant_item, mock_item])).
       impactData x = Some (calculateImpactScore mock_now mock_item 2))
   \<and> (\<exists>x \<in> set (noise (filterSignalFromNoise mock_now [rant_item, mock_item])).
       impactData x = None)"
proof -
  have h: "mock_scored \<in> set (highSignal (filterSignalFromNoise mock_now [rant_item, mock_item]))"
    by (simp add: filter_mock)
  have n: "\<lparr>src = rant_item, signalScore = calculateSignalScore rant_item, impactData = None\<rparr>
             \<in> set (noise (filterSignalFromNoise mock_now [rant_item, mock_item]))"
    by (simp add: filter_mock)
  have s: "src mock_scored = mock_item" by (simp add: mock_scored_def)
  note t = signal_filter_impact_data[of mock_now "[rant_item, mock_item]"]
  from t h have "impactData mock_scored
      = Some (calculateImpactScore mock_now (src mock_scored) (length [rant_item, mock_item]))"
    by blast
  then have a: "impactData mock_scored = Some (calculateImpactScore mock_now mock_item 2)"
    unfolding s by (simp add: impact_ignores_total[of _ _ "Suc (Suc 0)" 2])
  show ?thesis
  proof (intro conjI)
    show "\<exists>x \<in> set (highSignal (filterSignalFromNoise mock_now [rant_item, mock_item])).
       impactData x = Some (calculateImpactScore mock_now mock_item 2)"
      using h a by blast
    show "\<exists>x \<in> set (noise (filterSignalFromNoise mock_now [rant_item, mock_item])).
       impactData x = None"
      using t n by blast
  qed
qed

text \<open>
  C3 as stated fails: the noise element built for the rant has no impact data. Its signal
  score is the double \<^verbatim>\<open>0.5 - 0.2 - 0.2 = 0.09999999999999998\<close>.
\<close>

theorem noise_impact_counterexample:
  "noise (filterSignalFromNoise mock_now [rant_item, mock_item]) =
     [\<lparr>src = rant_item, signalScore = 900719925474099 / 9007199254740992, impactData = None\<rparr>]"
  by (simp add: filter_mock signal_rant)

subsection \<open>C4: the impact score\<close>

text \<open>
  C4. For every item the score is \<open>round1 (R * 0.4 + S * 0.3 + V * 0.3)\<close>, computed in
  doubles as the program computes it, where the upvotes are
  \<^verbatim>\<open>item.upvotes || item.score || 0\<close>, the comments \<^verbatim>\<open>item.numComments || 0\<close>, and the age
  is counted from \<open>createdAt\<close> (from now when it is missing); the mock item, scored 24
  hours after its creation, has the score 9.7, and the minor item, whose weighted sum is
  the double 1.4499999999999997, has the score 1.4.
\<close>

theorem impact_score_formula:
  "(let ups = or_int (upvotes item) (or_int (score item) 0);
        comments = or_int (numComments item) 0;
        ageHours = fdiv (real_of_int (now - (case createdAt item of None \<Rightarrow> now | Some t \<Rightarrow> t)))
                     3600000
    in iscore (calculateImpactScore now item n) =
         round1 (fadd (fadd (fmul (spec_reach ups comments) (fl 0.4))
                            (fmul (spec_sentiment item) (fl 0.3)))
                      (fmul (spec_velocity ups comments ageHours) (fl 0.3))))
   \<and> iscore (calculateImpactScore mock_now mock_item n) = fl 9.7
   \<and> iscore (calculateImpactScore mock_now minor_item n) = fl 1.4"
proof -
  have r: "\<And>x. fdiv (real_of_int (js_round (fmul x 10))) 10 = round1 x"
    by (simp add: js_round_def round1_def round_def)
  have g: "(let ups = or_int (upvotes item) (or_int (score item) 0);
        comments = or_int (numComments item) 0;
        ageHours = fdiv (real_of_int (now - (case createdAt item of None \<Rightarrow> now | Some t \<Rightarrow> t)))
                     3600000
    in iscore (calculateImpactScore now item n) =
         round1 (fadd (fadd (fmul (spec_reach ups comments) (fl 0.4))
                            (fmul (spec_sentiment item) (fl 0.3)))
                      (fmul (spec_velocity ups comments ageHours) (fl 0.3))))"
    unfolding calculateImpactScore_def Let_def r spec_reach_def spec_sentiment_def spec_velocity_def
    by simp
  from g impact_mock[of n] impact_minor[of n] show ?thesis by blast
qed

subsection \<open>C5: the classification of an area present in both runs\<close>

text \<open>
  C5. When \<open>k\<close> is a key of the current areas and of the previous areas, with \<open>c\<close>
  and \<open>p\<close> the areas stored under it, the comparison succeeds, and \<open>k\<close> is in the
  improved bucket iff \<open>freqDelta < -2\<close> or \<open>impactDelta < -1\<close>; in the worsened bucket
  iff it is not improved and \<open>freqDelta > 2\<close> or \<open>impactDelta > 1\<close>; in the stable
  bucket iff neither; and in no other bucket. The impact delta is the difference of the
  two impact scores (0 for a missing one) as the program computes it, in doubles.
\<close>

theorem compare_classification:
  assumes "focusAreas cur = Some ca" "focusAreas prev = Some pa"
      and "map_of (area_map ca) k = Some c" "map_of (area_map pa) k = Some p"
  shows "\<exists>r ch. compareSyntheses t (Some cur) (Some prev) = Inr r \<and> cmp_changes r = Some ch
      \<and> (let freqDelta = fa_frequency c - fa_frequency p;
              impactDelta = fsub (or_num (num (fa_impactScore c)) 0)
                                 (or_num (num (fa_impactScore p)) 0);
              improved = (freqDelta < - 2 \<or> impactDelta < - 1);
              worsened = (freqDelta > 2 \<or> impactDelta > 1)
         in (k \<in> set (issue_keys (improvedIssues ch)) \<longleftrightarrow> improved)
          \<and> (k \<in> set (issue_keys (worsenedIssues ch)) \<longleftrightarrow> \<not> improved \<and> worsened)
          \<and> (k \<in> set (issue_keys (stableIssues ch)) \<longleftrightarrow> \<not> improved \<and> \<not> worsened)
          \<and> k \<notin> set (issue_keys (newIssues ch))
          \<and> k \<notin> set (issue_keys (resolvedIssues ch)))"
proof -
  from compareSyntheses_changes[OF assms(1,2), of t] obtain r where
    r: "compareSyntheses t (Some cur) (Some prev) = Inr r"
       "cmp_changes r = Some (compare_areas ca pa)" by blast
  have "(let freqDelta = fa_frequency c - fa_frequency p;
              impactDelta = fsub (or_num (num (fa_impactScore c)) 0)
                                 (or_num (num (fa_impactScore p)) 0);
              improved = (freqDelta < - 2 \<or> impactDelta < - 1);
              worsened = (freqDelta > 2 \<or> impactDelta > 1)
         in (k \<in> set (issue_keys (improvedIssues (compare_areas ca pa))) \<longleftrightarrow> improved)
          \<and> (k \<in> set (issue_keys (worsenedIssues (compare_areas ca pa))) \<longleftrightarrow> \<not> improved \<and> worsened)
          \<and> (k \<in> set (issue_keys (stableIssues (compare_areas ca pa))) \<longleftrightarrow> \<not> improved \<and> \<not> worsened)
          \<and> k \<notin> set (issue_keys (newIssues (compare_areas ca pa)))
          \<and> k \<notin> set (issue_keys (resolvedIssues (compare_areas ca pa))))"
    unfolding Let_def
    using classification_keys[OF assms(3,4)]
    by (simp add: is_improved_def is_worsened_def impact_delta_def)
  with r show ?thesis by blast
qed

text \<open>
  The scenario: Sync, a bug, with frequency 10 and impact 6 before, frequency 6 and
  impact 6 now, is in the improved bucket. And an area at the impact threshold: with the
  same frequency and the impact scores 3.9 before and 4.9 now, the impact delta is the
  double 1.0000000000000004, and the area is in the worsened bucket.
\<close>

theorem compare_classification_witness:
  "(\<exists>r ch. compareSyntheses ''2025-02-01T00:00:00.000Z''
             (Some (snapshot_of [sync_area 6])) (Some (snapshot_of [sync_area 10])) = Inr r
      \<and> cmp_changes r = Some ch
      \<and> ''bug:Sync'' \<in> set (issue_keys (improvedIssues ch))
      \<and> ''bug:Sync'' \<notin> set (issue_keys (worsenedIssues ch))
      \<and> ''bug:Sync'' \<notin> set (issue_keys (stableIssues ch)))
   \<and> (\<exists>r ch. compareSyntheses ''2025-02-01T00:00:00.000Z''
             (Some (snapshot_of [snapshot_area 1 4.9])) (Some (snapshot_of [snapshot_area 1 3.9]))
               = Inr r
      \<and> cmp_changes r = Some ch
      \<and> ''usability_friction:Database Performance'' \<notin> set (issue_keys (improvedIssues ch))
      \<and> ''usability_friction:Database Performance'' \<in> set (issue_keys (worsenedIssues ch))
      \<and> ''usability_friction:Database Performance'' \<notin> set (issue_keys (stableIssues ch)))"
proof (rule conjI)
  have c: "map_of (area_map [sync_area 6]) ''bug:Sync'' = Some (sync_area 6)"
    by (simp add: area_map_def sync_key)
  have p: "map_of (area_map [sync_area 10]) ''bug:Sync'' = Some (sync_area 10)"
    by (simp add: area_map_def sync_key)
  have f: "focusAreas (snapshot_of [sync_area 6]) = Some [sync_area 6]"
    "focusAreas (snapshot_of [sync_area 10]) = Some [sync_area 10]"
    by (simp_all add: snapshot_of_def)
  from compare_classification[OF f c p, of "''2025-02-01T00:00:00.000Z''"]
  obtain r ch where r: "compareSyntheses ''2025-02-01T00:00:00.000Z''
             (Some (snapshot_of [sync_area 6])) (Some (snapshot_of [sync_area 10])) = Inr r"
      "cmp_changes r = Some ch"
    and l: "(let freqDelta = fa_frequency (sync_area 6) - fa_frequency (sync_area 10);
              impactDelta = fsub (or_num (num (fa_impactScore (sync_area 6))) 0)
                                 (or_num (num (fa_impactScore (sync_area 10))) 0);
              improved = (freqDelta < - 2 \<or> impactDelta < - 1);
              worsened = (freqDelta > 2 \<or> impactDelta > 1)
         in (''bug:Sync'' \<in> set (issue_keys (improvedIssues ch)) \<longleftrightarrow> improved)
          \<and> (''bug:Sync'' \<in> set (issue_keys (worsenedIssues ch)) \<longleftrightarrow> \<not> improved \<and> worsened)
          \<and> (''bug:Sync'' \<in> set (issue_keys (stableIssues ch)) \<longleftrightarrow> \<not> improved \<and> \<not> worsened)
          \<and> ''bug:Sync'' \<notin> set (issue_keys (newIssues ch))
          \<and> ''bug:Sync'' \<notin> set (issue_keys (resolvedIssues ch)))" by blast
  from l have "''bug:Sync'' \<in> set (issue_keys (improvedIssues ch))
      \<and> ''bug:Sync'' \<notin> set (issue_keys (worsenedIssues ch))
      \<and> ''bug:Sync'' \<notin> set (issue_keys (stableIssues ch))"
    by (simp add: Let_def sync_area_def)
  with r show "\<exists>r ch. compareSyntheses ''2025-02-01T00:00:00.000Z''
             (Some (snapshot_of [sync_area 6])) (Some (snapshot_of [sync_area 10])) = Inr r
      \<and> cmp_changes r = Some ch
      \<and> ''bug:Sync'' \<in> set (issue_keys (improvedIssues ch))
      \<and> ''bug:Sync'' \<notin> set (issue_keys (worsenedIssues ch))
      \<and> ''bug:Sync'' \<notin> set (issue_keys (stableIssues ch))" by blast
next
  let ?k = "''usability_friction:Database Performance''"
  have k: "fa_key (snapshot_area 1 4.9) = ?k" "fa_key (snapshot_area 1 3.9) = ?k"
    by (simp_all add: fa_key_def snapshot_area_def area_key_def)
  have c: "map_of (area_map [snapshot_area 1 4.9]) ?k = Some (snapshot_area 1 4.9)"
    by (simp add: area_map_def k)
  have p: "map_of (area_map [snapshot_area 1 3.9]) ?k = Some (snapshot_area 1 3.9)"
    by (simp add: area_map_def k)
  have f: "focusAreas (snapshot_of [snapshot_area 1 4.9]) = Some [snapshot_area 1 4.9]"
    "focusAreas (snapshot_of [snapshot_area 1 3.9]) = Some [snapshot_area 1 3.9]"
    by (simp_all add: snapshot_of_def)
  have d: "fsub (or_num (num (fa_impactScore (snapshot_area 1 4.9))) 0)
                (or_num (num (fa_impactScore (snapshot_area 1 3.9))) 0)
           = 4503599627370498 / 4503599627370496"
    by (simp add: snapshot_area_def or_num_def num_def) (simp add: f_eval)
  from compare_classification[OF f c p, of "''2025-02-01T00:00:00.000Z''"]
  obtain r ch where r: "compareSyntheses ''2025-02-01T00:00:00.000Z''
             (Some (snapshot_of [snapshot_area 1 4.9])) (Some (snapshot_of [snapshot_area 1 3.9]))
               = Inr r"
      "cmp_changes r = Some ch"
    and l: "(let freqDelta = fa_frequency (snapshot_area 1 4.9) - fa_frequency (snapshot_area 1 3.9);
              impactDelta = fsub (or_num (num (fa_impactScore (snapshot_area 1 4.9))) 0)
                                 (or_num (num (fa_impactScore (snapshot_area 1 3.9))) 0);
              improved = (freqDelta < - 2 \<or> impactDelta < - 1);
              worsened = (freqDelta > 2 \<or> impactDelta > 1)
         in (?k \<in> set (issue_keys (improvedIssues ch)) \<longleftrightarrow> improved)
          \<and> (?k \<in> set (issue_keys (worsenedIssues ch)) \<longleftrightarrow> \<not> improved \<and> worsened)
          \<and> (?k \<in> set (issue_keys (stableIssues ch)) \<longleftrightarrow> \<not> improved \<and> \<not> worsened)
          \<and> ?k \<notin> set (issue_keys (newIssues ch))
          \<and> ?k \<notin> set (issue_keys (resolvedIssues ch)))" by blast
  have q: "fa_frequency (snapshot_area 1 4.9) - fa_frequency (snapshot_area 1 3.9) = 0"
    by (simp add: snapshot_area_def)
  from l have "?k \<notin> set (issue_keys (improvedIssues ch))
      \<and> ?k \<in> set (issue_keys (worsenedIssues ch))
      \<and> ?k \<notin> set (issue_keys (stableIssues ch))"
    unfolding Let_def d q by simp
  with r show "\<exists>r ch. compareSyntheses ''2025-02-01T00:00:00.000Z''
             (Some (snapshot_of [snapshot_area 1 4.9])) (Some (snapshot_of [snapshot_area 1 3.9]))
               = Inr r
      \<and> cmp_changes r = Some ch
      \<and> ?k \<notin> set (issue_keys (improvedIssues ch))
      \<and> ?k \<in> set (issue_keys (worsenedIssues ch))
      \<and> ?k \<notin> set (issue_keys (stableIssues ch))" by blast
qed

subsection \<open>C6: the health score\<close>

text \<open>
  C6. The health score is 50, plus 15 when the sentiment improves, minus 15 when it
  declines, plus 5 per resolved issue, minus 10 per new issue labelled Critical, minus 3
  per worsened issue, plus 3 per improved issue, clamped to [0, 100]; so it always lies
  in [0, 100], and it is 100 for a thousand resolved issues.
\<close>

theorem health_score:
  "calculateHealthScore st ch =
     max 0 (min 100
       (50 + (if chain st (\<lambda>t. Some (direction t)) = Some ''improving'' then 15 else 0)
           - (if chain st (\<lambda>t. Some (direction t)) = Some ''declining'' then 15 else 0)
           + 5 * int (length (resolvedIssues ch))
           - 10 * int (length (filter (\<lambda>i. fa_severityLabel (area i) = Some ''Critical'') (newIssues ch)))
           - 3 * int (length (worsenedIssues ch))
           + 3 * int (length (improvedIssues ch))))
   \<and> 0 \<le> calculateHealthScore st ch \<and> calculateHealthScore st ch \<le> 100
   \<and> calculateHealthScore None
        \<lparr>newIssues = [], improvedIssues = [], worsenedIssues = [],
         resolvedIssues = replicate 1000 x, stableIssues = []\<rparr> = 100"
proof -
  have f: "calculateHealthScore st ch =
     max 0 (min 100
       (50 + (if chain st (\<lambda>t. Some (direction t)) = Some ''improving'' then 15 else 0)
           - (if chain st (\<lambda>t. Some (direction t)) = Some ''declining'' then 15 else 0)
           + 5 * int (length (resolvedIssues ch))
           - 10 * int (length (filter (\<lambda>i. fa_severityLabel (area i) = Some ''Critical'') (newIssues ch)))
           - 3 * int (length (worsenedIssues ch))
           + 3 * int (length (improvedIssues ch))))"
    unfolding calculateHealthScore_def Let_def js_round_of_int
    by (simp add: mult.commute)
  have r: "0 \<le> calculateHealthScore st ch \<and> calculateHealthScore st ch \<le> 100"
    unfolding calculateHealthScore_def Let_def by simp
  have e: "calculateHealthScore None
        \<lparr>newIssues = [], improvedIssues = [], worsenedIssues = [],
         resolvedIssues = replicate 1000 x, stableIssues = []\<rparr> = 100"
    unfolding calculateHealthScore_def Let_def js_round_of_int by (simp add: chain_def)
  from f r e show ?thesis by blast
qed

subsection \<open>C7: every key is in exactly one bucket\<close>

text \<open>
  C7. The comparison of a current set of areas with a previous snapshot succeeds, and
  every key of a current or previous area occurs exactly once in the five buckets
  together.
\<close>

theorem bucket_partition:
  assumes "focusAreas cur = Some ca" "focusAreas prev = Some pa"
  shows "\<exists>r ch. compareSyntheses t (Some cur) (Some prev) = Inr r \<and> cmp_changes r = Some ch
     \<and> (\<forall>k \<in> fa_key ` set ca \<union> fa_key ` set pa.
          count_list (issue_keys (newIssues ch)) k
        + count_list (issue_keys (improvedIssues ch)) k
        + count_list (issue_keys (worsenedIssues ch)) k
        + count_list (issue_keys (resolvedIssues ch)) k
        + count_list (issue_keys (stableIssues ch)) k = 1)"
  using compareSyntheses_changes[OF assms, of t] bucket_counts[of _ ca pa] by blast

text \<open>
  The theorem at a current run with Sync alone and a snapshot with Sync and a second
  area: each of the two keys is counted once.
\<close>

theorem bucket_partition_witness:
  "\<exists>r ch. compareSyntheses ''2025-02-01T00:00:00.000Z''
             (Some (snapshot_of [sync_area 6])) (Some (snapshot_of [sync_area 10, snapshot_area 5 9])) = Inr r
      \<and> cmp_changes r = Some ch
      \<and> count_list (issue_keys (newIssues ch)) ''bug:Sync''
        + count_list (issue_keys (improvedIssues ch)) ''bug:Sync''
        + count_list (issue_keys (worsenedIssues ch)) ''bug:Sync''
        + count_list (issue_keys (resolvedIssues ch)) ''bug:Sync''
        + count_list (issue_keys (stableIssues ch)) ''bug:Sync'' = 1
      \<and> count_list (issue_keys (newIssues ch)) (fa_key (snapshot_area 5 9))
        + count_list (issue_keys (improvedIssues ch)) (fa_key (snapshot_area 5 9))
        + count_list (issue_keys (worsenedIssues ch)) (fa_key (snapshot_area 5 9))
        + count_list (issue_keys (resolvedIssues ch)) (fa_key (snapshot_area 5 9))
        + count_list (issue_keys (stableIssues ch)) (fa_key (snapshot_area 5 9)) = 1"
proof -
  have f: "focusAreas (snapshot_of [sync_area 6]) = Some [sync_area 6]"
    "focusAreas (snapshot_of [sync_area 10, snapshot_area 5 9]) = Some [sync_area 10, snapshot_area 5 9]"
    by (simp_all add: snapshot_of_def)
  have k1: "''bug:Sync'' \<in> fa_key ` set [sync_area 6] \<union> fa_key ` set [sync_area 10, snapshot_area 5 9]"
    by (simp add: sync_key)
  have k2: "fa_key (snapshot_area 5 9) \<in> fa_key ` set [sync_area 6] \<union> fa_key ` set [sync_area 10, snapshot_area 5 9]"
    by simp
  from bucket_partition[OF f, of "''2025-02-01T00:00:00.000Z''"]
  obtain r ch where r: "compareSyntheses ''2025-02-01T00:00:00.000Z''
             (Some (snapshot_of [sync_area 6])) (Some (snapshot_of [sync_area 10, snapshot_area 5 9])) = Inr r"
      "cmp_changes r = Some ch"
    and a: "\<forall>k \<in> fa_key ` set [sync_area 6] \<union> fa_key ` set [sync_area 10, snapshot_area 5 9].
          count_list (issue_keys (newIssues ch)) k
        + count_list (issue_keys (improvedIssues ch)) k
        + count_list (issue_keys (worsenedIssues ch)) k
        + count_list (issue_keys (resolvedIssues ch)) k
        + count_list (issue_keys (stableIssues ch)) k = 1" by blast
  from a k1 have c1: "count_list (issue_keys (newIssues ch)) ''bug:Sync''
        + count_list (issue_keys (improvedIssues ch)) ''bug:Sync''
        + count_list (issue_keys (worsenedIssues ch)) ''bug:Sync''
        + count_list (issue_keys (resolvedIssues ch)) ''bug:Sync''
        + count_list (issue_keys (stableIssues ch)) ''bug:Sync'' = 1" by (rule bspec)
  from a k2 have c2: "count_list (issue_keys (newIssues ch)) (fa_key (snapshot_area 5 9))
        + count_list (issue_keys (improvedIssues ch)) (fa_key (snapshot_area 5 9))
        + count_list (issue_keys (worsenedIssues ch)) (fa_key (snapshot_area 5 9))
        + count_list (issue_keys (resolvedIssues ch)) (fa_key (snapshot_area 5 9))
        + count_list (issue_keys (stableIssues ch)) (fa_key (snapshot_area 5 9)) = 1" by (rule bspec)
  from r c1 c2 show ?thesis by blast
qed

subsection \<open>C8: the first run\<close>

text \<open>
  C8. Without a previous snapshot the comparison returns, for every current input (a
  missing one too), the object \<^verbatim>\<open>{isFirstRun: true, changes: null, trends: null}\<close>
  and no other property; it is a result, not an error.
\<close>

theorem first_run:
  "compareSyntheses t cur None =
     Inr \<lparr>isFirstRun = True, comparedAt = None, previousSnapshotDate = None,
          cmp_changes = None, cmp_trends = None, cmp_summary = None\<rparr>"
  by (simp add: compareSyntheses_def)

subsection \<open>C9: the partition of the signal filter\<close>

text \<open>
  C9. The two buckets together have the length of the input; their items are the
  input's items as a multiset, and so are their source ids; the high-signal items are
  those with a signal score of at least 0.5, the noise items the others, in input order;
  every element carries the signal score of its item; every high-signal element carries
  the impact score computed for its item, and \<open>highSignal\<close> is sorted descending by
  that score: it is the stable sort by descending score of the high-signal items.
\<close>

theorem filter_partition:
  fixes now xs
  defines "r \<equiv> filterSignalFromNoise now xs"
  shows "length (highSignal r) + length (noise r) = length xs
    \<and> mset (map src (highSignal r)) + mset (map src (noise r)) = mset xs
    \<and> mset (map (\<lambda>x. sourceId (src x)) (highSignal r @ noise r)) = mset (map sourceId xs)
    \<and> mset (map src (highSignal r)) = mset (filter (\<lambda>i. calculateSignalScore i \<ge> fl 0.5) xs)
    \<and> map src (noise r) = filter (\<lambda>i. calculateSignalScore i < fl 0.5) xs
    \<and> (\<forall>x \<in> set (highSignal r). signalScore x = calculateSignalScore (src x)
                                  \<and> signalScore x \<ge> fl 0.5)
    \<and> (\<forall>x \<in> set (noise r). signalScore x = calculateSignalScore (src x)
                             \<and> signalScore x < fl 0.5)
    \<and> map (\<lambda>x. map_option iscore (impactData x)) (highSignal r)
        = map (\<lambda>x. Some (iscore (calculateImpactScore now (src x) (length xs)))) (highSignal r)
    \<and> sorted_wrt (\<lambda>a b. a \<ge> b)
         (map (\<lambda>x. iscore (calculateImpactScore now (src x) (length xs))) (highSignal r))
    \<and> map src (highSignal r)
        = sort_key (\<lambda>i. - iscore (calculateImpactScore now i (length xs)))
            (filter (\<lambda>i. calculateSignalScore i \<ge> fl 0.5) xs)"
proof -
  let ?P = "\<lambda>i. calculateSignalScore i \<ge> fl 0.5"
  have hs: "mset (map src (highSignal r)) = mset (filter ?P xs)"
    unfolding r_def highSignal_filter
    by (simp only: mset_map sort_desc_mset) (simp add: image_mset.compositionality comp_def flip: mset_map)
  have ns: "map src (noise r) = filter (\<lambda>i. \<not> ?P i) xs"
    unfolding r_def noise_filter by (simp add: comp_def)
  have all: "mset (map src (highSignal r)) + mset (map src (noise r)) = mset xs"
    unfolding hs ns by simp
  have len: "length (highSignal r) + length (noise r) = length xs"
    using arg_cong[OF all, of size] by simp
  have ids: "mset (map (\<lambda>x. sourceId (src x)) (highSignal r @ noise r)) = mset (map sourceId xs)"
    using arg_cong[OF all, of "image_mset sourceId"]
    by (simp add: image_mset.compositionality comp_def flip: mset_map)
  have h: "\<forall>x \<in> set (highSignal r). signalScore x = calculateSignalScore (src x)
                                  \<and> signalScore x \<ge> fl 0.5"
    unfolding r_def highSignal_filter sort_desc_set by auto
  have n: "\<forall>x \<in> set (noise r). signalScore x = calculateSignalScore (src x)
                             \<and> signalScore x < fl 0.5"
    unfolding r_def noise_filter by auto
  have d: "\<forall>x \<in> set (highSignal r).
             impactData x = Some (calculateImpactScore now (src x) (length xs))"
    unfolding r_def highSignal_filter sort_desc_set by auto
  then have sc: "map (\<lambda>x. map_option iscore (impactData x)) (highSignal r)
        = map (\<lambda>x. Some (iscore (calculateImpactScore now (src x) (length xs)))) (highSignal r)"
    by simp
  have "sorted_wrt (\<lambda>a b. impact_of a \<ge> impact_of b) (highSignal r)"
    unfolding r_def highSignal_filter by (rule sort_desc_sorted)
  then have "sorted_wrt (\<lambda>a b. iscore (calculateImpactScore now (src a) (length xs))
                             \<ge> iscore (calculateImpactScore now (src b) (length xs)))
               (highSignal r)"
    by (rule sorted_wrt_mono_rel[rotated]) (use d in \<open>simp add: impact_of_eq\<close>)
  then have s: "sorted_wrt (\<lambda>a b. a \<ge> b)
         (map (\<lambda>x. iscore (calculateImpactScore now (src x) (length xs))) (highSignal r))"
    by (simp add: sorted_wrt_map)
  have o: "map src (highSignal r)
        = sort_key (\<lambda>i. - iscore (calculateImpactScore now i (length xs))) (filter ?P xs)"
    unfolding r_def by (rule highSignal_sources)
  have ns': "map src (noise r) = filter (\<lambda>i. calculateSignalScore i < fl 0.5) xs"
    unfolding ns by (simp add: not_le)
  show ?thesis using len all ids hs ns' h n sc s o by blast
qed

text \<open>
  The theorem at the list of the minor item, the borderline item and the mock item: the
  borderline item, whose signal score is the double 0.49999999999999994, is noise; the
  mock item, of score 9.7, comes before the minor item, of score 1.4, which precedes it
  in the input.
\<close>

theorem filter_partition_witness:
  "length (highSignal (filterSignalFromNoise mock_now [minor_item, borderline_item, mock_item]))
     + length (noise (filterSignalFromNoise mock_now [minor_item, borderline_item, mock_item])) = 3
   \<and> map src (highSignal (filterSignalFromNoise mock_now [minor_item, borderline_item, mock_item]))
       = [mock_item, minor_item]
   \<and> map (\<lambda>x. map_option iscore (impactData x))
         (highSignal (filterSignalFromNoise mock_now [minor_item, borderline_item, mock_item]))
       = [Some (fl 9.7), Some (fl 1.4)]
   \<and> map src (noise (filterSignalFromNoise mock_now [minor_item, borderline_item, mock_item]))
       = [borderline_item]"
proof -
  let ?xs = "[minor_item, borderline_item, mock_item]"
  let ?r = "filterSignalFromNoise mock_now ?xs"
  note t = filter_partition[of mock_now ?xs]
  have sg: "calculateSignalScore minor_item \<ge> fl 0.5" "\<not> calculateSignalScore borderline_item \<ge> fl 0.5"
    "calculateSignalScore mock_item \<ge> fl 0.5"
    by (simp_all add: signal_minor signal_borderline signal_mock fl_half)
  have sg': "calculateSignalScore borderline_item < fl 0.5" "\<not> calculateSignalScore minor_item < fl 0.5"
    "\<not> calculateSignalScore mock_item < fl 0.5"
    using sg by simp_all
  have lt: "\<not> - fl 1.4 \<le> - fl 9.7" by (simp add: fl_eval)
  from t have l: "length (highSignal ?r) + length (noise ?r) = 3" by simp
  from t have "map src (highSignal ?r)
        = sort_key (\<lambda>i. - iscore (calculateImpactScore mock_now i (length ?xs)))
            (filter (\<lambda>i. calculateSignalScore i \<ge> fl 0.5) ?xs)" by blast
  then have h: "map src (highSignal ?r) = [mock_item, minor_item]"
    unfolding filter.simps using sg lt by (simp add: impact_mock impact_minor)
  from t have "map (\<lambda>x. map_option iscore (impactData x)) (highSignal ?r)
        = map (\<lambda>x. Some (iscore (calculateImpactScore mock_now (src x) (length ?xs)))) (highSignal ?r)"
    by blast
  also have "\<dots> = map (\<lambda>i. Some (iscore (calculateImpactScore mock_now i (length ?xs))))
                     (map src (highSignal ?r))"
    by (simp add: comp_def)
  also have "\<dots> = [Some (fl 9.7), Some (fl 1.4)]"
    unfolding h by (simp add: impact_mock impact_minor)
  finally have d: "map (\<lambda>x. map_option iscore (impactData x)) (highSignal ?r)
        = [Some (fl 9.7), Some (fl 1.4)]" .
  from t have "map src (noise ?r) = filter (\<lambda>i. calculateSignalScore i < fl 0.5) ?xs" by blast
  then have n: "map src (noise ?r) = [borderline_item]"
    unfolding filter.simps using sg' by simp
  from l h d n show ?thesis by blast
qed

subsection \<open>C10: the focus areas\<close>

text \<open>
  C10. Two items with the same category and feature area are members of one focus
  area, and no two areas share an id. The members of an area are exactly the input
  items with its category and title, in input order; its frequency is their number, its
  average impact the mean of their impact scores (the score of the impact data of a
  member, 0 for a member without impact data), computed in doubles as the running sum
  from 0 in input order divided by their number; its top quote the first of their
  non-empty key quotes (the empty string when there is none), and its stakes and score
  rationale are those of its first member. The list is sorted descending by average
  impact.
\<close>

theorem cluster_properties:
  fixes its
  defines "R \<equiv> clusterIntoFocusAreas its"
  shows "(\<forall>i \<in> set its. \<forall>j \<in> set its.
            focusCategoryOf (src i) = focusCategoryOf (src j) \<and> featureAreaOf (src i) = featureAreaOf (src j)
            \<longrightarrow> (\<exists>a \<in> set R. i \<in> set (items a) \<and> j \<in> set (items a)))
    \<and> distinct (map area_id R)
    \<and> (\<forall>a \<in> set R.
          items a = filter (\<lambda>i. focusCategoryOf (src i) = area_category a
                                \<and> featureAreaOf (src i) = area_title a) its
        \<and> frequency a = int (length (items a))
        \<and> avgImpact a = fdiv (foldl fadd 0 (map (\<lambda>i. case impactData i of None \<Rightarrow> 0
                                                     | Some d \<Rightarrow> iscore d) (items a)))
                           (real (length (items a)))
        \<and> quotes a = concat (map item_quotes (items a))
        \<and> topQuote a = (case quotes a of [] \<Rightarrow> [] | q # _ \<Rightarrow> q)
        \<and> (\<exists>i rest. items a = i # rest
              \<and> area_stakes a = (case impactData i of
                                   None \<Rightarrow> \<lparr>stakes_type = ''neutral'', message = []\<rparr>
                                 | Some d \<Rightarrow> stakes d)
              \<and> scoreRationale a = (case impactData i of None \<Rightarrow> [] | Some d \<Rightarrow> rationale d)))
    \<and> sorted_wrt (\<lambda>a b. avgImpact a \<ge> avgImpact b) R"
proof -
  have e: "impact_of = (\<lambda>i. case impactData i of None \<Rightarrow> 0 | Some d \<Rightarrow> iscore d)"
    by (rule ext) (rule impact_of_eq)
  have p1: "\<forall>i \<in> set its. \<forall>j \<in> set its.
            focusCategoryOf (src i) = focusCategoryOf (src j) \<and> featureAreaOf (src i) = featureAreaOf (src j)
            \<longrightarrow> (\<exists>a \<in> set R. i \<in> set (items a) \<and> j \<in> set (items a))"
  proof (intro ballI impI)
    fix i j assume i: "i \<in> set its" and j: "j \<in> set its"
      and eq: "focusCategoryOf (src i) = focusCategoryOf (src j) \<and> featureAreaOf (src i) = featureAreaOf (src j)"
    from cluster_covers[OF i] obtain a where a: "a \<in> set R" "i \<in> set (items a)"
      unfolding R_def by blast
    from cluster_area_facts[OF a(1)[unfolded R_def]]
    have f: "items a = filter (\<lambda>i. focusCategoryOf (src i) = area_category a
                                  \<and> featureAreaOf (src i) = area_title a) its" by blast
    from a(2) have "focusCategoryOf (src i) = area_category a \<and> featureAreaOf (src i) = area_title a"
      unfolding f by simp
    with eq j have "j \<in> set (items a)" unfolding f by simp
    with a show "\<exists>a \<in> set R. i \<in> set (items a) \<and> j \<in> set (items a)" by blast
  qed
  have p2: "distinct (map area_id R)" unfolding R_def by (rule cluster_distinct_ids)
  have p3: "\<forall>a \<in> set R.
          items a = filter (\<lambda>i. focusCategoryOf (src i) = area_category a
                                \<and> featureAreaOf (src i) = area_title a) its
        \<and> frequency a = int (length (items a))
        \<and> avgImpact a = fdiv (foldl fadd 0 (map (\<lambda>i. case impactData i of None \<Rightarrow> 0
                                                     | Some d \<Rightarrow> iscore d) (items a)))
                           (real (length (items a)))
        \<and> quotes a = concat (map item_quotes (items a))
        \<and> topQuote a = (case quotes a of [] \<Rightarrow> [] | q # _ \<Rightarrow> q)
        \<and> (\<exists>i rest. items a = i # rest
              \<and> area_stakes a = (case impactData i of
                                   None \<Rightarrow> \<lparr>stakes_type = ''neutral'', message = []\<rparr>
                                 | Some d \<Rightarrow> stakes d)
              \<and> scoreRationale a = (case impactData i of None \<Rightarrow> [] | Some d \<Rightarrow> rationale d))"
    unfolding R_def using cluster_area_facts[unfolded e] by blast
  have p4: "sorted_wrt (\<lambda>a b. avgImpact a \<ge> avgImpact b) R"
    unfolding R_def clusterIntoFocusAreas_def by (rule sort_desc_sorted)
  from p1 p2 p3 p4 show ?thesis by blast
qed

text \<open>
  The theorem at the scored mock item and the scored minor item, of impact scores 9.7
  and 1.4: they form one area of frequency 2 and average impact 5.55.
\<close>

theorem cluster_properties_witness:
  "\<exists>a \<in> set (clusterIntoFocusAreas [mock_scored, minor_scored]).
      items a = [mock_scored, minor_scored] \<and> frequency a = 2
      \<and> avgImpact a = fl 5.55 \<and> topQuote a = ''Database freezes with large tables''"
proof -
  let ?its = "[mock_scored, minor_scored]"
  note t = cluster_properties[of ?its]
  have same: "focusCategoryOf (src mock_scored) = focusCategoryOf (src minor_scored)
              \<and> featureAreaOf (src mock_scored) = featureAreaOf (src minor_scored)"
    by (simp add: mock_scored_def minor_scored_def focusCategoryOf_def featureAreaOf_def
          mock_item_def minor_item_def or_str_def chain_def)
  have mem: "mock_scored \<in> set ?its" "minor_scored \<in> set ?its" by simp_all
  from t have "\<forall>i \<in> set ?its. \<forall>j \<in> set ?its.
            focusCategoryOf (src i) = focusCategoryOf (src j) \<and> featureAreaOf (src i) = featureAreaOf (src j)
            \<longrightarrow> (\<exists>a \<in> set (clusterIntoFocusAreas ?its). i \<in> set (items a) \<and> j \<in> set (items a))"
    by (rule conjunct1)
  with mem same obtain a where a: "a \<in> set (clusterIntoFocusAreas ?its)"
    "mock_scored \<in> set (items a)" "minor_scored \<in> set (items a)"
    by blast
  from t have "\<forall>a \<in> set (clusterIntoFocusAreas ?its).
          items a = filter (\<lambda>i. focusCategoryOf (src i) = area_category a
                                \<and> featureAreaOf (src i) = area_title a) ?its
        \<and> frequency a = int (length (items a))
        \<and> avgImpact a = fdiv (foldl fadd 0 (map (\<lambda>i. case impactData i of None \<Rightarrow> 0
                                                     | Some d \<Rightarrow> iscore d) (items a)))
                           (real (length (items a)))
        \<and> quotes a = concat (map item_quotes (items a))
        \<and> topQuote a = (case quotes a of [] \<Rightarrow> [] | q # _ \<Rightarrow> q)
        \<and> (\<exists>i rest. items a = i # rest
              \<and> area_stakes a = (case impactData i of
                                   None \<Rightarrow> \<lparr>stakes_type = ''neutral'', message = []\<rparr>
                                 | Some d \<Rightarrow> stakes d)
              \<and> scoreRationale a = (case impactData i of None \<Rightarrow> [] | Some d \<Rightarrow> rationale d))"
    by blast
  with a(1) have f: "items a = filter (\<lambda>i. focusCategoryOf (src i) = area_category a
                                \<and> featureAreaOf (src i) = area_title a) ?its"
    "frequency a = int (length (items a))"
    "avgImpact a = fdiv (foldl fadd 0 (map (\<lambda>i. case impactData i of None \<Rightarrow> 0
                                                     | Some d \<Rightarrow> iscore d) (items a)))
                           (real (length (items a)))"
    "quotes a = concat (map item_quotes (items a))"
    "topQuote a = (case quotes a of [] \<Rightarrow> [] | q # _ \<Rightarrow> q)" by blast+
  have "mock_scored \<in> set (filter (\<lambda>i. focusCategoryOf (src i) = area_category a
                                \<and> featureAreaOf (src i) = area_title a) ?its)"
    using a(2) f(1) by simp
  then have "focusCategoryOf (src mock_scored) = area_category a
        \<and> featureAreaOf (src mock_scored) = area_title a" unfolding set_filter by blast
  then have "filter (\<lambda>i. focusCategoryOf (src i) = area_category a
                                \<and> featureAreaOf (src i) = area_title a) ?its = ?its"
    using same by simp
  then have its: "items a = ?its" using f(1) by simp
  have io: "impactData mock_scored = Some (calculateImpactScore mock_now mock_item 1)"
    "impactData minor_scored = Some (calculateImpactScore mock_now minor_item 1)"
    by (simp_all add: mock_scored_def minor_scored_def)
  have q: "item_quotes mock_scored = [''Database freezes with large tables'']"
    by (simp add: item_quotes_def chain_def mock_scored_def mock_fields)
  have m: "fdiv (fadd (fadd 0 (fl 9.7)) (fl 1.4)) 2 = fl 5.55" by (simp add: f_eval)
  have "frequency a = 2" unfolding f(2) its by simp
  moreover have "avgImpact a = fl 5.55"
    unfolding f(3) its using m by (simp add: io impact_mock impact_minor)
  moreover have "topQuote a = ''Database freezes with large tables''"
    unfolding f(5) f(4) its by (simp add: q)
  ultimately show ?thesis using a(1) its by blast
qed

end
